theory Spec2Isabelle
  imports Complex_Main
begin

section \<open>Values of the configuration\<close>

text \<open>
  The settings that \<open>validateConfig\<close> inspects at run time are JavaScript values of any
  shape: the configuration comes from a user's file, and the whole point of the validation
  is that a value may have the wrong type. Numbers are JavaScript numbers, modelled as
  reals (NaN and the infinities are left out); functions, symbols and bigints do not occur
  among the values.
\<close>

datatype jsval =
    Undefined
  | Null
  | Bool bool
  | Num real
  | Str string
  | Arr "jsval list"
  | Obj "(string \<times> jsval) list"

text \<open>The \<open>typeof\<close> operator.\<close>

fun typeof :: "jsval \<Rightarrow> string" where
  "typeof Undefined = ''undefined''"
| "typeof Null = ''object''"
| "typeof (Bool b) = ''boolean''"
| "typeof (Num n) = ''number''"
| "typeof (Str s) = ''string''"
| "typeof (Arr xs) = ''object''"
| "typeof (Obj kvs) = ''object''"

text \<open>\<open>v == null\<close>: true of \<open>null\<close> and of \<open>undefined\<close> only.\<close>

fun nullish :: "jsval \<Rightarrow> bool" where
  "nullish Undefined = True"
| "nullish Null = True"
| "nullish v = False"

text \<open>The truthiness that \<open>if (v)\<close> and \<open>!v\<close> test.\<close>

fun truthy :: "jsval \<Rightarrow> bool" where
  "truthy Undefined = False"
| "truthy Null = False"
| "truthy (Bool b) = b"
| "truthy (Num n) = (n \<noteq> 0)"
| "truthy (Str s) = (s \<noteq> [])"
| "truthy (Arr xs) = True"
| "truthy (Obj kvs) = True"

fun isArray :: "jsval \<Rightarrow> bool" where
  "isArray (Arr xs) = True"
| "isArray v = False"

text \<open>
  The source throws \<open>TestRunnerStartError\<close> or a plain \<open>Error\<close>, each with a message.
\<close>

datatype error = TestRunnerStartError string | Error string

section \<open>Opaque collaborators\<close>

text \<open>
  Plugins, launchers, reporters and loggers are opaque to the configuration code: it
  controls which of them are present and in which order. A value records the factory
  that made it and the arguments of the call; \<open>Plugin n\<close>, \<open>Launcher n\<close>, \<open>Reporter n\<close>
  and \<open>Logger n\<close> stand for objects supplied by the user (or written as a literal),
  told apart by a name.
\<close>

datatype plugin =
    Plugin string
  | SetViewportPlugin
  | EmulateMediaPlugin
  | SetUserAgentPlugin
  | EsbuildPlugin jsval
  | NodeResolvePlugin jsval jsval jsval

datatype launcher = Launcher string | ChromeLauncher

datatype reporter = Reporter string | DefaultReporter

datatype logger = Logger string | TestRunnerLogger jsval

datatype middleware = Middleware string

section \<open>Configuration objects\<close>

text \<open>
  A group configuration (\<open>TestRunnerGroupConfig\<close>): its name, its \<open>files\<close>, and whatever
  other overrides it carries in the record's extension.
\<close>

record groupConfig =
  name :: string
  files :: jsval

text \<open>
  The \<open>groups\<close> field is one glob pattern or a list of inline group objects and glob
  patterns.
\<close>

datatype groupEntry = Inline groupConfig | Pattern string

datatype groupsField = GroupsString string | GroupsList "groupEntry list"

text \<open>
  Arrays of plugins are JavaScript arrays that the code mutates in place
  (\<open>unshift\<close>, \<open>push\<close>), so they live in a store and a configuration holds the address
  of its array. \<open>alloc\<close> is the array literal \<open>[]\<close>: a new array at an unused address.
\<close>

type_synonym addr = nat

record store =
  cells :: "addr \<Rightarrow> plugin list"
  next_free :: addr

definition alloc :: "store \<Rightarrow> plugin list \<Rightarrow> addr \<times> store" where
  "alloc h xs = (next_free h, h\<lparr>cells := (cells h)(next_free h := xs), next_free := Suc (next_free h)\<rparr>)"

definition unshift :: "addr \<Rightarrow> plugin list \<Rightarrow> store \<Rightarrow> store" where
  "unshift a xs h = h\<lparr>cells := (cells h)(a := xs @ cells h a)\<rparr>"

definition push :: "addr \<Rightarrow> plugin list \<Rightarrow> store \<Rightarrow> store" where
  "push a xs h = h\<lparr>cells := (cells h)(a := cells h a @ xs)\<rparr>"

text \<open>
  A (partial) \<open>TestRunnerConfig\<close>. \<open>settings\<close> holds the settings read by key, among them
  every key that the validation checks (\<open>rootDir\<close>, \<open>port\<close>, \<open>files\<close>, \<open>esbuildTarget\<close>,
  \<open>nodeResolve\<close>, \<open>debug\<close>, ...) and any key the code does not know; a key that is absent
  reads as \<open>undefined\<close>, as a property read does. The structured fields have the types the
  interface declares; \<open>None\<close> is an absent (undefined) field.
\<close>

record config =
  settings :: "string \<Rightarrow> jsval"
  groups :: "groupsField option"
  browsers :: "launcher list option"
  testFramework :: "(string \<rightharpoonup> jsval) option"
  reporters :: "reporter list option"
  logger :: "logger option"
  middlewares :: "middleware list option"
  plugins :: "addr option"

text \<open>
  \<open>TestRunnerCliArgs\<close>: the settings it shares with the configuration and its flags
  (\<open>puppeteer\<close>, \<open>playwright\<close> among them) by key, the group focus \<open>group\<close>, and the two
  properties that shadow properties of the configuration: \<open>groups\<close> and \<open>browsers\<close>.
\<close>

record cliArgs =
  cli_settings :: "string \<Rightarrow> jsval"
  group :: "string option"
  cli_groups :: "string option"
  cli_browsers :: "string list option"

text \<open>
  What the code takes from outside: the process (\<open>process.cwd()\<close>, \<open>cpus().length\<close>),
  \<open>path.resolve\<close>, \<open>require.resolve\<close>, portfinder's \<open>getPortPromise\<close>, and the functions of
  \<open>collectGroupConfigs\<close> and \<open>loadLauncher\<close>.
\<close>

record env =
  cwd :: string
  cpus :: nat
  path_resolve :: "string \<Rightarrow> string"
  require_resolve :: "string \<Rightarrow> string"
  getPortPromise :: "nat \<Rightarrow> nat"
  collectGroupConfigs :: "string list \<Rightarrow> groupConfig list"
  puppeteerLauncher :: "string list option \<Rightarrow> launcher list"
  playwrightLauncher :: "string list option \<Rightarrow> launcher list"

section \<open>Defaults\<close>

definition secondMs :: real where
  "secondMs = 1000"

definition minuteMs :: real where
  "minuteMs = secondMs * 60"

text \<open>
  \<open>defaultConfig\<close> (lines 25-38). The plugin array of \<open>defaultConfig\<close> is created once, when the module is loaded: it is
  the array at address 0 of the store the module starts with.
\<close>

definition defaultPlugins :: addr where
  "defaultPlugins = 0"

definition module_store :: store where
  "module_store = \<lparr>cells = (\<lambda>a. []), next_free = 1\<rparr>"

definition noSettings :: "string \<Rightarrow> jsval" where
  "noSettings = (\<lambda>k. Undefined)"

definition emptyConfig :: config where
  "emptyConfig = \<lparr>settings = noSettings, groups = None, browsers = None,
     testFramework = None, reporters = None, logger = None, middlewares = None,
     plugins = None\<rparr>"

definition defaultConfig :: "env \<Rightarrow> config" where
  "defaultConfig e = emptyConfig\<lparr>
     settings := noSettings
       (''rootDir'' := Str (cwd e),
        ''protocol'' := Str ''http:'',
        ''hostname'' := Str ''localhost'',
        ''watch'' := Bool False,
        ''concurrentBrowsers'' := Num 2,
        ''concurrency'' := Num (max 1 (real (cpus e) / 2)),
        ''browserStartTimeout'' := Num (minuteMs / 2),
        ''testsStartTimeout'' := Num (secondMs * 20),
        ''testsFinishTimeout'' := Num (minuteMs * 2),
        ''browserLogs'' := Bool True),
     middlewares := Some [],
     plugins := Some defaultPlugins\<rparr>"

section \<open>Validation\<close>

text \<open>\<open>validate\<close> (lines 40-48), the three lists of keys and \<open>validateConfig\<close> (lines 70-87).\<close>

definition validate :: "config \<Rightarrow> string \<Rightarrow> string \<Rightarrow> error + unit" where
  "validate c key type =
     (if nullish (settings c key) then Inr ()
      else if typeof (settings c key) \<noteq> type
        then Inl (TestRunnerStartError
               (''Configuration error: The '' @ key @ '' setting should be a '' @ type @ ''.''))
      else Inr ())"

definition stringSettings :: "string list" where
  "stringSettings = [''rootDir'', ''hostname'']"

definition numberSettings :: "string list" where
  "numberSettings = [''port'', ''concurrentBrowsers'', ''concurrency'', ''browserStartTimeout'',
     ''testsStartTimeout'', ''testsFinishTimeout'']"

definition booleanSettings :: "string list" where
  "booleanSettings = [''watch'', ''preserveSymlinks'', ''browserLogs'', ''coverage'',
     ''staticLogging'', ''manual'', ''open'', ''debug'']"

text \<open>\<open>keys.forEach(key => validate(config, key, type))\<close>: the first throw ends the loop.\<close>

fun forEach_validate :: "config \<Rightarrow> string list \<Rightarrow> string \<Rightarrow> error + unit" where
  "forEach_validate c [] type = Inr ()"
| "forEach_validate c (key # keys) type =
     (case validate c key type of
        Inl e \<Rightarrow> Inl e
      | Inr u \<Rightarrow> forEach_validate c keys type)"

definition validateConfig :: "config \<Rightarrow> error + config" where
  "validateConfig c =
     (case forEach_validate c stringSettings ''string'' of
        Inl e \<Rightarrow> Inl e
      | Inr u \<Rightarrow>
     (case forEach_validate c numberSettings ''number'' of
        Inl e \<Rightarrow> Inl e
      | Inr u \<Rightarrow>
     (case forEach_validate c booleanSettings ''boolean'' of
        Inl e \<Rightarrow> Inl e
      | Inr u \<Rightarrow>
     (if \<not> nullish (settings c ''esbuildTarget'') \<and>
         \<not> (typeof (settings c ''esbuildTarget'') = ''string'' \<or> isArray (settings c ''esbuildTarget''))
      then Inl (Error ''Configuration error: The esbuildTarget setting should be a string or array.'')
      else if \<not> nullish (settings c ''files'') \<and>
         \<not> (typeof (settings c ''files'') = ''string'' \<or> isArray (settings c ''files''))
      then Inl (Error ''Configuration error: The files setting should be a string or an array.'')
      else Inr c))))"

section \<open>Merging\<close>

text \<open>
  Modelled from the spec: \<open>mergeConfigs\<close> (the module \<open>./mergeConfigs\<close> is not among the
  sources). The spec's Merger takes the ordered sources and, for each key, lets the last
  source that defines a value other than \<open>undefined\<close> win; the override is shallow and per
  key, a value is replaced as a whole, never deep-merged or concatenated. The spec does
  not say whether the merged object holds a source's array itself or a copy of it; the
  model hands on the address that it finds, and the content and the order of a plugin
  list are the same either way.
\<close>

definition override :: "config \<Rightarrow> config \<Rightarrow> config" where
  "override a b =
     \<lparr>settings = (\<lambda>k. if settings b k = Undefined then settings a k else settings b k),
      groups = (case groups b of None \<Rightarrow> groups a | Some v \<Rightarrow> Some v),
      browsers = (case browsers b of None \<Rightarrow> browsers a | Some v \<Rightarrow> Some v),
      testFramework = (case testFramework b of None \<Rightarrow> testFramework a | Some v \<Rightarrow> Some v),
      reporters = (case reporters b of None \<Rightarrow> reporters a | Some v \<Rightarrow> Some v),
      logger = (case logger b of None \<Rightarrow> logger a | Some v \<Rightarrow> Some v),
      middlewares = (case middlewares b of None \<Rightarrow> middlewares a | Some v \<Rightarrow> Some v),
      plugins = (case plugins b of None \<Rightarrow> plugins a | Some v \<Rightarrow> Some v)\<rparr>"

definition mergeConfigs :: "config list \<Rightarrow> config" where
  "mergeConfigs cs = foldl override emptyConfig cs"

section \<open>Resolution\<close>

text \<open>
  Lines 93-100. \<open>{...cliArgs, groups: undefined, browsers: undefined}\<close>: every property
  of the CLI arguments (the focus \<open>group\<close> among them) but \<open>groups\<close> and \<open>browsers\<close>, which
  are set to \<open>undefined\<close>.
\<close>

definition cliArgsConfig :: "cliArgs \<Rightarrow> config" where
  "cliArgsConfig a = emptyConfig\<lparr>
     settings := (cli_settings a)
       (''group'' := (case group a of None \<Rightarrow> Undefined | Some g \<Rightarrow> Str g))\<rparr>"

definition mergedConfigs :: "env \<Rightarrow> config \<Rightarrow> cliArgs \<Rightarrow> config" where
  "mergedConfigs e c a = mergeConfigs [defaultConfig e, c, cliArgsConfig a]"

text \<open>Lines 103-108: ensure that \<open>rootDir\<close> is always resolved.\<close>

definition resolveRootDir :: "env \<Rightarrow> config \<Rightarrow> error + config" where
  "resolveRootDir e fc =
     (case settings fc ''rootDir'' of
        Str s \<Rightarrow> Inr (fc\<lparr>settings := (settings fc)(''rootDir'' := Str (path_resolve e s))\<rparr>)
      | _ \<Rightarrow> Inl (TestRunnerStartError ''No rootDir specified.''))"

text \<open>Lines 110-113: generate a default port, \<open>getPortPromise({ port: 8000 })\<close>.\<close>

definition assignPort :: "env \<Rightarrow> config \<Rightarrow> config" where
  "assignPort e fc =
     (if typeof (settings fc ''port'') \<noteq> ''number''
      then fc\<lparr>settings := (settings fc)(''port'' := Num (real (getPortPromise e 8000)))\<rparr>
      else fc)"

text \<open>Lines 93-113: merge, validate, resolve the root directory, assign the port.\<close>

definition prepareConfig :: "env \<Rightarrow> config \<Rightarrow> cliArgs \<Rightarrow> error + config" where
  "prepareConfig e c a =
     (case validateConfig (mergedConfigs e c a) of
        Inl err \<Rightarrow> Inl err
      | Inr fc \<Rightarrow>
     (case resolveRootDir e fc of
        Inl err \<Rightarrow> Inl err
      | Inr fc' \<Rightarrow> Inr (assignPort e fc')))"

text \<open>
  Lines 115-130. The loop over the entries of \<open>groups\<close>: an object is pushed to \<open>groupConfigs\<close>, a
  string to \<open>configPatterns\<close>.
\<close>

fun inlineGroups :: "groupEntry list \<Rightarrow> groupConfig list" where
  "inlineGroups [] = []"
| "inlineGroups (Inline g # es) = g # inlineGroups es"
| "inlineGroups (Pattern p # es) = inlineGroups es"

fun configPatterns :: "groupEntry list \<Rightarrow> string list" where
  "configPatterns [] = []"
| "configPatterns (Inline g # es) = configPatterns es"
| "configPatterns (Pattern p # es) = p # configPatterns es"

text \<open>
  \<open>if (finalConfig.groups)\<close> skips an absent field and the empty string; a single string
  is a list of one pattern. The groups that the patterns point to come after the inline
  ones.
\<close>

definition resolveGroups :: "env \<Rightarrow> config \<Rightarrow> groupConfig list" where
  "resolveGroups e fc =
     (case groups fc of
        None \<Rightarrow> []
      | Some (GroupsString s) \<Rightarrow>
          (if s = [] then [] else collectGroupConfigs e [s])
      | Some (GroupsList es) \<Rightarrow> inlineGroups es @ collectGroupConfigs e (configPatterns es))"

text \<open>Lines 132-136: no group may be named \<open>default\<close>.\<close>

definition checkReservedName :: "groupConfig list \<Rightarrow> error + groupConfig list" where
  \<open>checkReservedName gs =
     (case find (\<lambda>g. name g = ''default'') gs of
        Some g \<Rightarrow> Inl (Error
          ''Cannot create a group named "default". This named is reserved by the test runner.'')
      | None \<Rightarrow> Inr gs)\<close>

text \<open>Lines 138-157: the focus on one group that \<open>cliArgs.group\<close> asks for.\<close>

definition focusGroup ::
  "cliArgs \<Rightarrow> config \<Rightarrow> groupConfig list \<Rightarrow> error + (config \<times> groupConfig list)" where
  "focusGroup a fc gs =
     (case group a of
        None \<Rightarrow> Inr (fc, gs)
      | Some g \<Rightarrow>
          (if g = ''default'' then Inr (fc, [])
           else (case find (\<lambda>c. name c = g) gs of
              None \<Rightarrow> Inl (TestRunnerStartError (''Could not find any group named '' @ g))
            | Some groupConfig \<Rightarrow>
                Inr (fc\<lparr>settings := (settings fc)(''files'' := Undefined)\<rparr>,
                     [if nullish (files groupConfig)
                      then groupConfig\<lparr>files := settings fc ''files''\<rparr>
                      else groupConfig]))))"

text \<open>Lines 159-184. \<open>hasBrowsers\<close> is \<open>finalConfig.browsers && finalConfig.browsers.length > 0\<close>.\<close>

fun hasBrowsers :: "launcher list option \<Rightarrow> bool" where
  "hasBrowsers None = False"
| "hasBrowsers (Some bs) = (length bs > 0)"

definition negotiateLaunchers :: "env \<Rightarrow> cliArgs \<Rightarrow> config \<Rightarrow> error + config" where
  "negotiateLaunchers e a fc =
     (if truthy (cli_settings a ''puppeteer'') then
        (if hasBrowsers (browsers fc)
         then Inl (TestRunnerStartError
           ''The --puppeteer flag cannot be used when defining browsers manually in your finalConfig.'')
         else Inr (fc\<lparr>browsers := Some (puppeteerLauncher e (cli_browsers a))\<rparr>))
      else if truthy (cli_settings a ''playwright'') then
        (if hasBrowsers (browsers fc)
         then Inl (TestRunnerStartError
           ''The --playwright flag cannot be used when defining browsers manually in your finalConfig.'')
         else Inr (fc\<lparr>browsers := Some (playwrightLauncher e (cli_browsers a))\<rparr>))
      else if cli_browsers a \<noteq> None
        then Inl (TestRunnerStartError
           ''The browsers option must be used along with the puppeteer or playwright option.'')
      else if browsers fc = None then Inr (fc\<lparr>browsers := Some [ChromeLauncher]\<rparr>)
      else Inr fc)"

text \<open>
  Lines 186-197: the test framework, the reporters and the logger. The spread puts the user's properties
  over the default \<open>path\<close>; the logger is made from \<open>config.debug\<close>, the \<open>debug\<close> of the
  function's first argument.
\<close>

definition fillDefaults :: "env \<Rightarrow> config \<Rightarrow> config \<Rightarrow> config" where
  "fillDefaults e c fc =
     (let fc1 = fc\<lparr>testFramework := Some
            ([''path'' \<mapsto> Str (require_resolve e ''@web/test-runner-mocha/dist/autorun.js'')]
               ++ (case testFramework fc of None \<Rightarrow> Map.empty | Some tf \<Rightarrow> tf))\<rparr>;
          fc2 = (if reporters fc1 = None then fc1\<lparr>reporters := Some [DefaultReporter]\<rparr> else fc1)
      in if logger fc2 = None
         then fc2\<lparr>logger := Some (TestRunnerLogger (settings c ''debug''))\<rparr>
         else fc2)"

text \<open>The object literal of the syntax checker.\<close>

definition syntaxChecker :: plugin where
  "syntaxChecker = Plugin ''syntax-checker''"

text \<open>
  Lines 199-225: the plugin pipeline. Every step changes the array that \<open>finalConfig.plugins\<close> refers
  to; a new array is made only when there is none.
\<close>

definition assemblePlugins :: "store \<Rightarrow> config \<Rightarrow> config \<times> store" where
  "assemblePlugins h fc =
     (let (p, h0) = (case plugins fc of None \<Rightarrow> alloc h [] | Some p \<Rightarrow> (p, h));
          fc' = fc\<lparr>plugins := Some p\<rparr>;
          h1 = unshift p [syntaxChecker] h0;
          h2 = unshift p [SetViewportPlugin, EmulateMediaPlugin, SetUserAgentPlugin] h1;
          h3 = (if truthy (settings fc' ''nodeResolve'')
                then (let userOptions =
                            (if typeof (settings fc' ''nodeResolve'') = ''object''
                             then settings fc' ''nodeResolve'' else Undefined)
                      in push p [NodeResolvePlugin (settings fc' ''rootDir'')
                                   (settings fc' ''preserveSymlinks'') userOptions] h2)
                else h2);
          h4 = (if truthy (settings fc' ''esbuildTarget'')
                then unshift p [EsbuildPlugin (settings fc' ''esbuildTarget'')] h3
                else h3)
      in (fc', h4))"

text \<open>
  \<open>parseConfig\<close>. A throw anywhere ends the resolution with that error; otherwise the
  final configuration and the group configurations are returned, with the store as the
  resolution leaves it.
\<close>

definition resolveUpToFocus ::
  "env \<Rightarrow> config \<Rightarrow> cliArgs \<Rightarrow> error + (config \<times> groupConfig list)" where
  "resolveUpToFocus e c a =
     (case prepareConfig e c a of
        Inl err \<Rightarrow> Inl err
      | Inr fc \<Rightarrow>
     (case checkReservedName (resolveGroups e fc) of
        Inl err \<Rightarrow> Inl err
      | Inr gs \<Rightarrow> focusGroup a fc gs))"

definition resolveUpToLaunchers ::
  "env \<Rightarrow> config \<Rightarrow> cliArgs \<Rightarrow> error + (config \<times> groupConfig list)" where
  "resolveUpToLaunchers e c a =
     (case resolveUpToFocus e c a of
        Inl err \<Rightarrow> Inl err
      | Inr (fc, gs) \<Rightarrow>
     (case negotiateLaunchers e a fc of
        Inl err \<Rightarrow> Inl err
      | Inr fc' \<Rightarrow> Inr (fc', gs)))"

definition parseConfig ::
  "env \<Rightarrow> store \<Rightarrow> config \<Rightarrow> cliArgs \<Rightarrow> error + (config \<times> groupConfig list \<times> store)" where
  "parseConfig e h c a =
     (case resolveUpToLaunchers e c a of
        Inl err \<Rightarrow> Inl err
      | Inr (fc, gs) \<Rightarrow>
          (let (fc', h') = assemblePlugins h (fillDefaults e c fc)
           in Inr (fc', gs, h')))"

section \<open>The vocabulary of the specification\<close>

text \<open>
  What the validation expects of a recognized key: a value whose \<open>typeof\<close> is the given
  string, or a string or an array.
\<close>

datatype expected = Typeof string | StringOrArray

fun conforms :: "expected \<Rightarrow> jsval \<Rightarrow> bool" where
  "conforms (Typeof t) v = (typeof v = t)"
| "conforms StringOrArray v = (typeof v = ''string'' \<or> isArray v)"

text \<open>A key is mistyped when it is present (neither absent nor \<open>null\<close>) with a value of the wrong type.\<close>

definition mistyped :: "config \<Rightarrow> string \<Rightarrow> expected \<Rightarrow> bool" where
  "mistyped c key x = (\<not> nullish (settings c key) \<and> \<not> conforms x (settings c key))"

text \<open>The recognized keys with what is expected of each, in the order of the checks.\<close>

definition recognizedSettings :: "(string \<times> expected) list" where
  "recognizedSettings =
     map (\<lambda>k. (k, Typeof ''string'')) stringSettings @
     map (\<lambda>k. (k, Typeof ''number'')) numberSettings @
     map (\<lambda>k. (k, Typeof ''boolean'')) booleanSettings @
     [(''esbuildTarget'', StringOrArray), (''files'', StringOrArray)]"

text \<open>The error of the validation for a key: its message names the key and the expected type.\<close>

fun validationError :: "string \<Rightarrow> expected \<Rightarrow> error" where
  "validationError key (Typeof t) =
     TestRunnerStartError (''Configuration error: The '' @ key @ '' setting should be a '' @ t @ ''.'')"
| "validationError key StringOrArray =
     (if key = ''files''
      then Error ''Configuration error: The files setting should be a string or an array.''
      else Error (''Configuration error: The '' @ key @ '' setting should be a string or array.''))"

text \<open>
  Last writer wins: of the values that the sources give a key, in order, the last one
  that is defined.
\<close>

definition lastDefined :: "jsval list \<Rightarrow> jsval" where
  "lastDefined vs = (case filter (\<lambda>v. v \<noteq> Undefined) vs of [] \<Rightarrow> Undefined | w # ws \<Rightarrow> last (w # ws))"

definition lastSome :: "'a option list \<Rightarrow> 'a option" where
  "lastSome vs = (case filter (\<lambda>v. v \<noteq> None) vs of [] \<Rightarrow> None | w # ws \<Rightarrow> last (w # ws))"

text \<open>
  The order that the specification requires of the plugin list, front to back: the
  downleveling plugin if a target is configured, the three simulation plugins, the syntax
  checker, the plugins that were there, the node-resolve plugin if that option is
  configured.
\<close>

definition pipeline :: "config \<Rightarrow> plugin list \<Rightarrow> plugin list" where
  "pipeline fc ps =
     (if truthy (settings fc ''esbuildTarget'') then [EsbuildPlugin (settings fc ''esbuildTarget'')] else [])
     @ [SetViewportPlugin, EmulateMediaPlugin, SetUserAgentPlugin, syntaxChecker]
     @ ps
     @ (if truthy (settings fc ''nodeResolve'')
        then [NodeResolvePlugin (settings fc ''rootDir'') (settings fc ''preserveSymlinks'')
                (if typeof (settings fc ''nodeResolve'') = ''object''
                 then settings fc ''nodeResolve'' else Undefined)]
        else [])"

text \<open>An absolute (POSIX) path starts with a slash.\<close>

definition isAbsolute :: "string \<Rightarrow> bool" where
  "isAbsolute p = (case p of [] \<Rightarrow> False | x # xs \<Rightarrow> x = CHR ''/'')"

section \<open>Concrete inputs\<close>

text \<open>
  An environment and inputs on which the theorems below are exercised. In this
  environment \<open>path.resolve\<close> resolves against \<open>/work\<close>, the port finder returns the port it
  is asked to prefer, every glob pattern points to one group configuration that bears
  the pattern's name, and the launcher factories make one launcher for each browser name.
\<close>

definition sample_env :: env where
  "sample_env = \<lparr>cwd = ''/work'', cpus = 4,
     path_resolve = (\<lambda>p. if p \<noteq> [] \<and> hd p = CHR ''/'' then p else ''/work/'' @ p),
     require_resolve = (\<lambda>m. ''/work/node_modules/'' @ m),
     getPortPromise = (\<lambda>p. p),
     collectGroupConfigs = map (\<lambda>p. \<lparr>name = p, files = Undefined\<rparr>),
     puppeteerLauncher = (\<lambda>names. map (\<lambda>n. Launcher (''puppeteer:'' @ n))
        (case names of None \<Rightarrow> [''chrome''] | Some ns \<Rightarrow> ns)),
     playwrightLauncher = (\<lambda>names. map (\<lambda>n. Launcher (''playwright:'' @ n))
        (case names of None \<Rightarrow> [''chromium''] | Some ns \<Rightarrow> ns))\<rparr>"

definition noArgs :: cliArgs where
  "noArgs = \<lparr>cli_settings = noSettings, group = None, cli_groups = None, cli_browsers = None\<rparr>"

text \<open>A user configuration with one plugin \<open>P\<close> in an array of its own, at address 1.\<close>

definition user_store :: store where
  "user_store = \<lparr>cells = (\<lambda>a. [])(1 := [Plugin ''P'']), next_free = 2\<rparr>"

definition user_config :: config where
  "user_config = emptyConfig\<lparr>
     settings := noSettings(''nodeResolve'' := Bool True, ''esbuildTarget'' := Str ''es2020''),
     plugins := Some 1\<rparr>"

definition debug_args :: cliArgs where
  "debug_args = noArgs\<lparr>cli_settings := noSettings(''debug'' := Bool True)\<rparr>"

definition two_mistyped :: config where
  "two_mistyped = emptyConfig\<lparr>settings := noSettings(''rootDir'' := Num 5, ''port'' := Str ''8000'')\<rparr>"

definition port_mistyped :: config where
  "port_mistyped = emptyConfig\<lparr>
     settings := noSettings(''rootDir'' := Str ''/work'', ''port'' := Str ''8000'', ''colour'' := Num 3)\<rparr>"

definition puppeteer_args :: cliArgs where
  "puppeteer_args = noArgs\<lparr>cli_settings := noSettings(''puppeteer'' := Bool True),
     cli_browsers := Some [''firefox'']\<rparr>"

definition browsers_config :: config where
  "browsers_config = emptyConfig\<lparr>browsers := Some [Launcher ''x'']\<rparr>"

definition empty_browsers :: config where
  "empty_browsers = emptyConfig\<lparr>browsers := Some []\<rparr>"

definition half_port :: config where
  "half_port = emptyConfig\<lparr>settings := noSettings(''port'' := Num (1 / 2))\<rparr>"

definition relative_root :: config where
  "relative_root = emptyConfig\<lparr>settings := noSettings(''rootDir'' := Str ''src'')\<rparr>"

definition null_root :: config where
  "null_root = emptyConfig\<lparr>settings := noSettings(''rootDir'' := Null)\<rparr>"

definition port_9000 :: config where
  "port_9000 = emptyConfig\<lparr>settings := noSettings(''port'' := Num 9000)\<rparr>"

definition port_7000_args :: cliArgs where
  "port_7000_args = noArgs\<lparr>cli_settings := noSettings(''port'' := Num 7000)\<rparr>"

definition host_config :: config where
  "host_config = emptyConfig\<lparr>settings := noSettings(''hostname'' := Str ''example.org'')\<rparr>"

definition groups_config :: config where
  "groups_config = emptyConfig\<lparr>
     settings := noSettings(''files'' := Str ''test/**/*.test.js''),
     groups := Some (GroupsList [Inline \<lparr>name = ''a'', files = Undefined\<rparr>,
                                 Pattern ''groups/*.js'',
                                 Inline \<lparr>name = ''b'', files = Str ''b/*.js''\<rparr>,
                                 Inline \<lparr>name = ''a'', files = Str ''second/*.js''\<rparr>])\<rparr>"

definition reserved_config :: config where
  "reserved_config = emptyConfig\<lparr>
     groups := Some (GroupsList [Inline \<lparr>name = ''a'', files = Undefined\<rparr>,
                                 Inline \<lparr>name = ''default'', files = Undefined\<rparr>])\<rparr>"

definition focus_args :: "string \<Rightarrow> cliArgs" where
  "focus_args g = noArgs\<lparr>group := Some g\<rparr>"

section \<open>Facts about the stages\<close>

lemmas model_defs =
  parseConfig_def resolveUpToLaunchers_def resolveUpToFocus_def prepareConfig_def
  validateConfig_def validate_def stringSettings_def numberSettings_def booleanSettings_def
  mergedConfigs_def mergeConfigs_def override_def cliArgsConfig_def defaultConfig_def
  emptyConfig_def noSettings_def resolveRootDir_def assignPort_def resolveGroups_def
  checkReservedName_def focusGroup_def negotiateLaunchers_def fillDefaults_def
  assemblePlugins_def alloc_def unshift_def push_def syntaxChecker_def defaultPlugins_def
  module_store_def secondMs_def minuteMs_def

subsection \<open>Lists\<close>

lemma find_append_case:
  "find P (xs @ ys) = (case find P xs of None \<Rightarrow> find P ys | Some x \<Rightarrow> Some x)"
  by (induction xs) auto

lemma find_map_key:
  "find (\<lambda>(k, x). Q k x) (map (\<lambda>k. (k, t)) ks) = map_option (\<lambda>k. (k, t)) (find (\<lambda>k. Q k t) ks)"
  by (induction ks) auto

lemma find_None_set: "find P xs = None \<longleftrightarrow> (\<forall>x\<in>set xs. \<not> P x)"
  by (induction xs) auto

lemma find_first:
  "x \<in> set xs \<Longrightarrow> P x \<Longrightarrow> \<forall>y\<in>set (takeWhile (\<lambda>y. y \<noteq> x) xs). \<not> P y \<Longrightarrow> find P xs = Some x"
proof (induction xs)
  case Nil
  then show ?case by simp
next
  case (Cons z zs)
  show ?case
  proof (cases "z = x")
    case True
    with Cons.prems show ?thesis by simp
  next
    case False
    from False Cons.prems(1) have 1: "x \<in> set zs" by simp
    from False Cons.prems(3) have 2: "\<not> P z" by simp
    from False Cons.prems(3) have 3: "\<forall>y\<in>set (takeWhile (\<lambda>y. y \<noteq> x) zs). \<not> P y" by simp
    from Cons.IH [OF 1 Cons.prems(2) 3] 2 show ?thesis by simp
  qed
qed

subsection \<open>Values\<close>

lemma half_not_int: "(1 / 2 :: real) \<notin> \<int>"
proof
  assume "(1 / 2 :: real) \<in> \<int>"
  then obtain k :: int where "(1 / 2 :: real) = of_int k" by (auto elim: Ints_cases)
  then have "(of_int (2 * k) :: real) = of_int 1" by simp
  then have "2 * k = 1" by (simp only: of_int_eq_iff)
  then show False by presburger
qed

subsection \<open>Validation\<close>

lemma forEach_validate_find:
  "forEach_validate c ks t =
     (case find (\<lambda>k. mistyped c k (Typeof t)) ks of
        None \<Rightarrow> Inr ()
      | Some k \<Rightarrow> Inl (validationError k (Typeof t)))"
  by (induction ks) (auto simp: validate_def mistyped_def)

lemma validateConfig_find:
  "validateConfig c =
     (case find (\<lambda>(k, x). mistyped c k x) recognizedSettings of
        None \<Rightarrow> Inr c
      | Some (k, x) \<Rightarrow> Inl (validationError k x))"
  unfolding validateConfig_def recognizedSettings_def forEach_validate_find find_append_case find_map_key
  by (auto simp: mistyped_def split: option.splits)

lemma validateConfig_Inr: "validateConfig c = Inr c' \<Longrightarrow> c' = c"
  by (auto simp: validateConfig_find split: option.splits)

lemma mistyped_update_other:
  "k \<noteq> k' \<Longrightarrow> mistyped (c\<lparr>settings := (settings c)(k := v)\<rparr>) k' x = mistyped c k' x"
  by (simp add: mistyped_def)

lemma find_mistyped_update:
  assumes "k \<notin> fst ` set ks"
  shows "find (\<lambda>(k', x). mistyped (c\<lparr>settings := (settings c)(k := v)\<rparr>) k' x) ks =
         find (\<lambda>(k', x). mistyped c k' x) ks"
  using assms by (induction ks) (auto simp: mistyped_update_other)

subsection \<open>Merging\<close>

lemma settings_override [simp]:
  "settings (override x y) k = (if settings y k = Undefined then settings x k else settings y k)"
  by (simp add: override_def)

lemma fields_override [simp]:
  "groups (override x y) = (case groups y of None \<Rightarrow> groups x | Some v \<Rightarrow> Some v)"
  "browsers (override x y) = (case browsers y of None \<Rightarrow> browsers x | Some v \<Rightarrow> Some v)"
  "testFramework (override x y) = (case testFramework y of None \<Rightarrow> testFramework x | Some v \<Rightarrow> Some v)"
  "reporters (override x y) = (case reporters y of None \<Rightarrow> reporters x | Some v \<Rightarrow> Some v)"
  "logger (override x y) = (case logger y of None \<Rightarrow> logger x | Some v \<Rightarrow> Some v)"
  "middlewares (override x y) = (case middlewares y of None \<Rightarrow> middlewares x | Some v \<Rightarrow> Some v)"
  "plugins (override x y) = (case plugins y of None \<Rightarrow> plugins x | Some v \<Rightarrow> Some v)"
  by (simp_all add: override_def)

lemma fields_emptyConfig [simp]:
  "settings emptyConfig k = Undefined" "groups emptyConfig = None" "browsers emptyConfig = None"
  "testFramework emptyConfig = None" "reporters emptyConfig = None" "logger emptyConfig = None"
  "middlewares emptyConfig = None" "plugins emptyConfig = None"
  by (simp_all add: emptyConfig_def noSettings_def)

lemma fields_cliArgsConfig [simp]:
  "groups (cliArgsConfig a) = None" "browsers (cliArgsConfig a) = None"
  "testFramework (cliArgsConfig a) = None" "reporters (cliArgsConfig a) = None"
  "logger (cliArgsConfig a) = None" "middlewares (cliArgsConfig a) = None"
  "plugins (cliArgsConfig a) = None"
  by (simp_all add: cliArgsConfig_def)

lemma settings_cliArgsConfig:
  "settings (cliArgsConfig a) k =
     (if k = ''group'' then (case group a of None \<Rightarrow> Undefined | Some g \<Rightarrow> Str g)
      else cli_settings a k)"
  by (simp add: cliArgsConfig_def)

lemma fields_defaultConfig [simp]:
  "groups (defaultConfig e) = None" "browsers (defaultConfig e) = None"
  "testFramework (defaultConfig e) = None" "reporters (defaultConfig e) = None"
  "logger (defaultConfig e) = None" "middlewares (defaultConfig e) = Some []"
  "plugins (defaultConfig e) = Some defaultPlugins"
  by (simp_all add: defaultConfig_def)

lemma defaultConfig_port: "settings (defaultConfig e) ''port'' = Undefined"
  by (simp add: defaultConfig_def noSettings_def)

lemma settings_mergedConfigs:
  "settings (mergedConfigs e c a) k =
     (if settings (cliArgsConfig a) k \<noteq> Undefined then settings (cliArgsConfig a) k
      else if settings c k \<noteq> Undefined then settings c k
      else settings (defaultConfig e) k)"
  by (simp add: mergedConfigs_def mergeConfigs_def)

lemma fields_mergedConfigs:
  "groups (mergedConfigs e c a) = groups c"
  "browsers (mergedConfigs e c a) = browsers c"
  "testFramework (mergedConfigs e c a) = testFramework c"
  "reporters (mergedConfigs e c a) = reporters c"
  "logger (mergedConfigs e c a) = logger c"
  "plugins (mergedConfigs e c a) = Some (case plugins c of None \<Rightarrow> defaultPlugins | Some p \<Rightarrow> p)"
  by (simp_all add: mergedConfigs_def mergeConfigs_def split: option.splits)

lemma mergedConfigs_port:
  "cli_settings a ''port'' = Undefined \<Longrightarrow>
   settings (mergedConfigs e c a) ''port'' = settings c ''port''"
  by (simp add: settings_mergedConfigs settings_cliArgsConfig defaultConfig_port)

lemma settings_foldl_override:
  "settings (foldl override z cs) k =
     (case filter (\<lambda>v. v \<noteq> Undefined) (map (\<lambda>c. settings c k) cs) of
        [] \<Rightarrow> settings z k | w # ws \<Rightarrow> last (w # ws))"
  by (induction cs arbitrary: z) (auto split: list.splits)

lemma settings_mergeConfigs:
  "settings (mergeConfigs cs) k = lastDefined (map (\<lambda>c. settings c k) cs)"
  by (simp add: mergeConfigs_def lastDefined_def settings_foldl_override split: list.splits)

lemma settings_mergedConfigs_lastDefined:
  "settings (mergedConfigs e c a) k =
     lastDefined [settings (defaultConfig e) k, settings c k, settings (cliArgsConfig a) k]"
  by (simp add: mergedConfigs_def settings_mergeConfigs)

lemma cliArgsConfig_port: "settings (cliArgsConfig a) ''port'' = cli_settings a ''port''"
  by (simp add: settings_cliArgsConfig)

lemma plugins_foldl_override:
  "plugins (foldl override z cs) =
     (case filter (\<lambda>v. v \<noteq> None) (map plugins cs) of
        [] \<Rightarrow> plugins z | w # ws \<Rightarrow> last (w # ws))"
  by (induction cs arbitrary: z) (auto split: list.splits option.splits)

lemma browsers_foldl_override:
  "browsers (foldl override z cs) =
     (case filter (\<lambda>v. v \<noteq> None) (map browsers cs) of
        [] \<Rightarrow> browsers z | w # ws \<Rightarrow> last (w # ws))"
  by (induction cs arbitrary: z) (auto split: list.splits option.splits)

lemma plugins_mergeConfigs: "plugins (mergeConfigs cs) = lastSome (map plugins cs)"
  by (simp add: mergeConfigs_def lastSome_def plugins_foldl_override split: list.splits)

lemma browsers_mergeConfigs: "browsers (mergeConfigs cs) = lastSome (map browsers cs)"
  by (simp add: mergeConfigs_def lastSome_def browsers_foldl_override split: list.splits)

subsection \<open>Root directory and port\<close>

lemma prepareConfig_Inr:
  "prepareConfig e c a = Inr fc \<longleftrightarrow>
     validateConfig (mergedConfigs e c a) = Inr (mergedConfigs e c a) \<and>
     (\<exists>s. settings (mergedConfigs e c a) ''rootDir'' = Str s \<and>
          fc = assignPort e ((mergedConfigs e c a)
                 \<lparr>settings := (settings (mergedConfigs e c a))(''rootDir'' := Str (path_resolve e s))\<rparr>))"
  by (auto simp: prepareConfig_def resolveRootDir_def dest: validateConfig_Inr
           split: sum.splits jsval.splits)

lemma fields_assignPort [simp]:
  "groups (assignPort e fc) = groups fc" "browsers (assignPort e fc) = browsers fc"
  "testFramework (assignPort e fc) = testFramework fc" "reporters (assignPort e fc) = reporters fc"
  "logger (assignPort e fc) = logger fc" "middlewares (assignPort e fc) = middlewares fc"
  "plugins (assignPort e fc) = plugins fc"
  by (simp_all add: assignPort_def)

lemma settings_assignPort:
  "settings (assignPort e fc) k =
     (if k = ''port'' \<and> typeof (settings fc ''port'') \<noteq> ''number''
      then Num (real (getPortPromise e 8000)) else settings fc k)"
  by (simp add: assignPort_def)

lemma prepareConfig_fields:
  assumes "prepareConfig e c a = Inr fc"
  shows "groups fc = groups c" "browsers fc = browsers c" "logger fc = logger c"
    "reporters fc = reporters c" "testFramework fc = testFramework c"
    "plugins fc = Some (case plugins c of None \<Rightarrow> defaultPlugins | Some p \<Rightarrow> p)"
  using assms by (auto simp: prepareConfig_Inr fields_mergedConfigs)

lemma prepareConfig_settings:
  assumes "prepareConfig e c a = Inr fc" "k \<noteq> ''rootDir''" "k \<noteq> ''port''"
  shows "settings fc k = settings (mergedConfigs e c a) k"
  using assms by (auto simp: prepareConfig_Inr settings_assignPort)

lemma prepareConfig_rootDir:
  assumes "prepareConfig e c a = Inr fc"
  shows "\<exists>s. settings (mergedConfigs e c a) ''rootDir'' = Str s \<and>
             settings fc ''rootDir'' = Str (path_resolve e s)"
  using assms by (auto simp: prepareConfig_Inr settings_assignPort)

lemma prepareConfig_port:
  assumes "prepareConfig e c a = Inr fc"
  shows "settings fc ''port'' =
     (if typeof (settings (mergedConfigs e c a) ''port'') = ''number''
      then settings (mergedConfigs e c a) ''port''
      else Num (real (getPortPromise e 8000)))"
  using assms by (auto simp: prepareConfig_Inr settings_assignPort)

subsection \<open>What each later stage leaves alone\<close>

lemma focusGroup_frame:
  assumes "focusGroup a fc gs = Inr (fc', gs')"
  shows "groups fc' = groups fc" "browsers fc' = browsers fc" "testFramework fc' = testFramework fc"
    "reporters fc' = reporters fc" "logger fc' = logger fc" "middlewares fc' = middlewares fc"
    "plugins fc' = plugins fc" "k \<noteq> ''files'' \<Longrightarrow> settings fc' k = settings fc k"
  using assms by (auto simp: focusGroup_def split: option.splits if_splits)

lemma negotiateLaunchers_frame:
  assumes "negotiateLaunchers e a fc = Inr fc'"
  shows "settings fc' = settings fc" "groups fc' = groups fc" "testFramework fc' = testFramework fc"
    "reporters fc' = reporters fc" "logger fc' = logger fc" "middlewares fc' = middlewares fc"
    "plugins fc' = plugins fc"
  using assms by (auto simp: negotiateLaunchers_def split: if_splits)

lemma fields_fillDefaults [simp]:
  "settings (fillDefaults e c fc) = settings fc"
  "groups (fillDefaults e c fc) = groups fc"
  "browsers (fillDefaults e c fc) = browsers fc"
  "middlewares (fillDefaults e c fc) = middlewares fc"
  "plugins (fillDefaults e c fc) = plugins fc"
  by (simp_all add: fillDefaults_def Let_def)

lemma logger_fillDefaults:
  "logger (fillDefaults e c fc) =
     (case logger fc of None \<Rightarrow> Some (TestRunnerLogger (settings c ''debug'')) | Some l \<Rightarrow> Some l)"
  by (simp add: fillDefaults_def Let_def split: option.splits)

text \<open>The in-place construction of the plugin list yields the order of \<open>pipeline\<close>.\<close>

lemma assemblePlugins_Some:
  "plugins fc = Some p \<Longrightarrow>
   assemblePlugins h fc = (fc, h\<lparr>cells := (cells h)(p := pipeline fc (cells h p))\<rparr>)"
  by (simp add: assemblePlugins_def pipeline_def unshift_def push_def Let_def)

lemma assemblePlugins_None:
  "plugins fc = None \<Longrightarrow>
   assemblePlugins h fc =
     (fc\<lparr>plugins := Some (next_free h)\<rparr>,
      h\<lparr>cells := (cells h)(next_free h := pipeline fc []), next_free := Suc (next_free h)\<rparr>)"
  by (simp add: assemblePlugins_def pipeline_def unshift_def push_def alloc_def Let_def)

lemma assemblePlugins_frame:
  assumes "assemblePlugins h fc = (cfg, h')"
  shows "settings cfg = settings fc" "groups cfg = groups fc" "browsers cfg = browsers fc"
    "testFramework cfg = testFramework fc" "reporters cfg = reporters fc" "logger cfg = logger fc"
    "middlewares cfg = middlewares fc"
  using assms by (cases "plugins fc"; auto simp: assemblePlugins_Some assemblePlugins_None)+

lemma browsers_assemblePlugins [simp]:
  "browsers (fst (assemblePlugins h fc)) = browsers fc"
  using assemblePlugins_frame(3) [of h fc] by (cases "assemblePlugins h fc") simp

lemma settings_assemblePlugins [simp]:
  "settings (fst (assemblePlugins h fc)) = settings fc"
  using assemblePlugins_frame(1) [of h fc] by (cases "assemblePlugins h fc") simp

subsection \<open>The resolution as a sequence of stages\<close>

lemma resolveUpToFocus_Inr:
  "resolveUpToFocus e c a = Inr (fc', gs') \<longleftrightarrow>
     (\<exists>fc. prepareConfig e c a = Inr fc \<and>
           checkReservedName (resolveGroups e fc) = Inr (resolveGroups e fc) \<and>
           focusGroup a fc (resolveGroups e fc) = Inr (fc', gs'))"
  by (auto simp: resolveUpToFocus_def checkReservedName_def split: sum.splits option.splits)

lemma resolveUpToLaunchers_Inr:
  "resolveUpToLaunchers e c a = Inr (fc', gs) \<longleftrightarrow>
     (\<exists>fc. resolveUpToFocus e c a = Inr (fc, gs) \<and> negotiateLaunchers e a fc = Inr fc')"
  by (auto simp: resolveUpToLaunchers_def split: sum.splits)

lemma parseConfig_Inr:
  "parseConfig e h c a = Inr (cfg, gs, h') \<longleftrightarrow>
     (\<exists>fc. resolveUpToLaunchers e c a = Inr (fc, gs) \<and>
           assemblePlugins h (fillDefaults e c fc) = (cfg, h'))"
  by (auto simp: parseConfig_def split: sum.splits prod.splits)

lemma parseConfig_Inl:
  "parseConfig e h c a = Inl err \<longleftrightarrow> resolveUpToLaunchers e c a = Inl err"
  by (auto simp: parseConfig_def split: sum.splits prod.splits)

lemma parseConfig_success:
  assumes "parseConfig e h c a = Inr (cfg, gs, h')"
  obtains fc0 fc1 fc2 where
    "prepareConfig e c a = Inr fc0"
    "checkReservedName (resolveGroups e fc0) = Inr (resolveGroups e fc0)"
    "focusGroup a fc0 (resolveGroups e fc0) = Inr (fc1, gs)"
    "negotiateLaunchers e a fc1 = Inr fc2"
    "assemblePlugins h (fillDefaults e c fc2) = (cfg, h')"
  using assms
  unfolding parseConfig_Inr resolveUpToLaunchers_Inr resolveUpToFocus_Inr by blast

lemma parseConfig_prepare_Inl:
  "prepareConfig e c a = Inl err \<Longrightarrow> parseConfig e h c a = Inl err"
  by (simp add: parseConfig_def resolveUpToLaunchers_def resolveUpToFocus_def)

lemma parseConfig_focus_Inl:
  "resolveUpToFocus e c a = Inl err \<Longrightarrow> parseConfig e h c a = Inl err"
  by (simp add: parseConfig_def resolveUpToLaunchers_def)

lemma resolveUpToFocus_prepared:
  assumes "prepareConfig e c a = Inr fc"
  shows "resolveUpToFocus e c a =
     (case checkReservedName (resolveGroups e fc) of
        Inl err \<Rightarrow> Inl err
      | Inr gs \<Rightarrow> focusGroup a fc gs)"
  using assms by (simp add: resolveUpToFocus_def)

lemma parseConfig_after_focus:
  assumes "resolveUpToFocus e c a = Inr (fc, gs)"
  shows "parseConfig e h c a =
     (case negotiateLaunchers e a fc of
        Inl err \<Rightarrow> Inl err
      | Inr fc' \<Rightarrow> Inr (fst (assemblePlugins h (fillDefaults e c fc')), gs,
                        snd (assemblePlugins h (fillDefaults e c fc'))))"
  using assms by (simp add: parseConfig_def resolveUpToLaunchers_def split: sum.splits prod.splits)

lemma parseConfig_returns:
  assumes "parseConfig e h c a = Inr (cfg, gs, h')"
  shows "\<exists>fc. resolveUpToFocus e c a = Inr (fc, gs) \<and> settings cfg = settings fc"
proof -
  from assms obtain fc2 where
    l: "resolveUpToLaunchers e c a = Inr (fc2, gs)"
    and asm: "assemblePlugins h (fillDefaults e c fc2) = (cfg, h')"
    unfolding parseConfig_Inr by blast
  from l obtain fc1 where
    f: "resolveUpToFocus e c a = Inr (fc1, gs)" and n: "negotiateLaunchers e a fc1 = Inr fc2"
    unfolding resolveUpToLaunchers_Inr by blast
  have "settings cfg = settings fc1"
    using assemblePlugins_frame(1) [OF asm] negotiateLaunchers_frame(1) [OF n] by simp
  with f show ?thesis by blast
qed

lemma parseConfig_settings:
  assumes "parseConfig e h c a = Inr (cfg, gs, h')" "k \<noteq> ''files''"
  shows "\<exists>fc. prepareConfig e c a = Inr fc \<and> settings cfg k = settings fc k"
proof -
  from assms(1) obtain fc0 fc1 fc2 where
    p: "prepareConfig e c a = Inr fc0"
    and f: "focusGroup a fc0 (resolveGroups e fc0) = Inr (fc1, gs)"
    and n: "negotiateLaunchers e a fc1 = Inr fc2"
    and asm: "assemblePlugins h (fillDefaults e c fc2) = (cfg, h')"
    by (rule parseConfig_success)
  have "settings cfg k = settings fc0 k"
    using assemblePlugins_frame(1) [OF asm] negotiateLaunchers_frame(1) [OF n]
      focusGroup_frame(8) [OF f assms(2)] by simp
  with p show ?thesis by blast
qed

text \<open>
  The array of a returned configuration is the user's array, or the array of the defaults
  when the user gave none; the resolution has changed that array in place.
\<close>

lemma parseConfig_plugins:
  assumes "parseConfig e h c a = Inr (cfg, gs, h')"
  shows "plugins cfg = Some (case plugins c of None \<Rightarrow> defaultPlugins | Some p \<Rightarrow> p) \<and>
         h' = h\<lparr>cells := (cells h)((case plugins c of None \<Rightarrow> defaultPlugins | Some p \<Rightarrow> p) :=
                 pipeline cfg (cells h (case plugins c of None \<Rightarrow> defaultPlugins | Some p \<Rightarrow> p)))\<rparr>"
proof -
  let ?p = "case plugins c of None \<Rightarrow> defaultPlugins | Some p \<Rightarrow> p"
  from assms(1) obtain fc0 fc1 fc2 where
    p: "prepareConfig e c a = Inr fc0"
    and f: "focusGroup a fc0 (resolveGroups e fc0) = Inr (fc1, gs)"
    and n: "negotiateLaunchers e a fc1 = Inr fc2"
    and asm: "assemblePlugins h (fillDefaults e c fc2) = (cfg, h')"
    by (rule parseConfig_success)
  have "plugins (fillDefaults e c fc2) = Some ?p"
    using prepareConfig_fields(6) [OF p] focusGroup_frame(7) [OF f] negotiateLaunchers_frame(7) [OF n]
    by simp
  from assemblePlugins_Some [OF this, of h] asm
  have "cfg = fillDefaults e c fc2"
    and "h' = h\<lparr>cells := (cells h)(?p := pipeline (fillDefaults e c fc2) (cells h ?p))\<rparr>"
    by simp_all
  with \<open>plugins (fillDefaults e c fc2) = Some ?p\<close> show ?thesis by simp
qed

lemma resolveUpToFocus_browsers:
  assumes "resolveUpToFocus e c a = Inr (fc, gs)"
  shows "browsers fc = browsers (mergedConfigs e c a)"
  using assms prepareConfig_fields(2) focusGroup_frame(2)
  by (fastforce simp: resolveUpToFocus_Inr fields_mergedConfigs)

lemma resolveGroups_prepared:
  assumes "prepareConfig e c a = Inr fc"
  shows "resolveGroups e fc =
     (case groups c of
        None \<Rightarrow> []
      | Some (GroupsString s) \<Rightarrow> (if s = [] then [] else collectGroupConfigs e [s])
      | Some (GroupsList es) \<Rightarrow> inlineGroups es @ collectGroupConfigs e (configPatterns es))"
  using prepareConfig_fields(1) [OF assms] by (simp add: resolveGroups_def)

subsection \<open>The concrete inputs, evaluated\<close>

lemma sample_env_absolute: "\<forall>p. isAbsolute (path_resolve sample_env p)"
  by (auto simp: sample_env_def isAbsolute_def split: list.splits)

lemma prepareConfig_groups_config:
  "prepareConfig sample_env groups_config (focus_args g) =
     Inr (assignPort sample_env (mergedConfigs sample_env groups_config (focus_args g)))"
  by (simp add: model_defs sample_env_def noArgs_def focus_args_def groups_config_def fun_eq_iff)

lemma prepareConfig_groups_noArgs:
  "prepareConfig sample_env groups_config noArgs =
     Inr (assignPort sample_env (mergedConfigs sample_env groups_config noArgs))"
  by (simp add: model_defs sample_env_def noArgs_def groups_config_def fun_eq_iff)

lemma prepareConfig_reserved:
  "prepareConfig sample_env reserved_config noArgs =
     Inr (assignPort sample_env (mergedConfigs sample_env reserved_config noArgs))"
  by (simp add: model_defs sample_env_def noArgs_def reserved_config_def fun_eq_iff)

lemma resolveGroups_groups_config:
  "resolveGroups sample_env (assignPort sample_env (mergedConfigs sample_env groups_config a)) =
     [\<lparr>name = ''a'', files = Undefined\<rparr>, \<lparr>name = ''b'', files = Str ''b/*.js''\<rparr>,
      \<lparr>name = ''a'', files = Str ''second/*.js''\<rparr>, \<lparr>name = ''groups/*.js'', files = Undefined\<rparr>]"
  by (simp add: resolveGroups_def fields_mergedConfigs groups_config_def sample_env_def)

lemma resolveUpToFocus_browsers_config:
  "resolveUpToFocus sample_env browsers_config puppeteer_args =
     Inr (assignPort sample_env (mergedConfigs sample_env browsers_config puppeteer_args), [])"
  by (simp add: model_defs sample_env_def noArgs_def puppeteer_args_def browsers_config_def
      fun_eq_iff)

lemma resolveUpToFocus_emptyConfig:
  "resolveUpToFocus sample_env emptyConfig puppeteer_args =
     Inr (assignPort sample_env (mergedConfigs sample_env emptyConfig puppeteer_args), [])"
  by (simp add: model_defs sample_env_def noArgs_def puppeteer_args_def fun_eq_iff)

section \<open>The plugin pipeline\<close>

text \<open>
  Claim C1. Whenever a resolution returns, the plugin list of the returned configuration
  is, front to back: the downleveling (esbuild) plugin, the viewport plugin, the
  media-emulation plugin, the user-agent plugin, the syntax checker, the plugins that the
  input's list held when the resolution began, in their order, and the node-resolve
  plugin. The downleveling plugin is there exactly when the merged \<open>esbuildTarget\<close> is
  set (truthy), the node-resolve plugin exactly when the merged \<open>nodeResolve\<close> is. The
  assembly itself never fails: a resolution that fails has failed in a stage before it.
  The list is the input's own array (the array of the defaults when the input has none),
  read in the store that the resolution leaves.
\<close>

theorem plugin_pipeline_order:
  "(case parseConfig e h c a of
      Inl err \<Rightarrow> resolveUpToLaunchers e c a = Inl err
    | Inr (cfg, gs, h') \<Rightarrow>
        (let p = (case plugins c of None \<Rightarrow> defaultPlugins | Some q \<Rightarrow> q);
             target = settings cfg ''esbuildTarget'';
             nodeResolve = settings cfg ''nodeResolve''
         in plugins cfg = Some p \<and>
            target = settings (mergedConfigs e c a) ''esbuildTarget'' \<and>
            nodeResolve = settings (mergedConfigs e c a) ''nodeResolve'' \<and>
            cells h' p =
              (if truthy target then [EsbuildPlugin target] else []) @
              [SetViewportPlugin, EmulateMediaPlugin, SetUserAgentPlugin, syntaxChecker] @
              cells h p @
              (if truthy nodeResolve
               then [NodeResolvePlugin (settings cfg ''rootDir'') (settings cfg ''preserveSymlinks'')
                       (if typeof nodeResolve = ''object'' then nodeResolve else Undefined)]
               else [])))"
proof (cases "parseConfig e h c a")
  case (Inl err)
  then have "resolveUpToLaunchers e c a = Inl err" by (simp add: parseConfig_Inl)
  with Inl show ?thesis by simp
next
  case (Inr r)
  obtain cfg gs h' where r: "r = (cfg, gs, h')" by (cases r) auto
  with Inr have eq: "parseConfig e h c a = Inr (cfg, gs, h')" by simp
  from parseConfig_settings [OF eq, of "''esbuildTarget''"]
  have 1: "settings cfg ''esbuildTarget'' = settings (mergedConfigs e c a) ''esbuildTarget''"
    by (auto simp: prepareConfig_settings)
  from parseConfig_settings [OF eq, of "''nodeResolve''"]
  have 2: "settings cfg ''nodeResolve'' = settings (mergedConfigs e c a) ''nodeResolve''"
    by (auto simp: prepareConfig_settings)
  from parseConfig_plugins [OF eq] 1 2 show ?thesis
    by (simp add: eq pipeline_def Let_def)
qed

text \<open>
  With the user plugin \<open>P\<close>, \<open>nodeResolve: true\<close> and \<open>esbuildTarget: "es2020"\<close> the list
  is [downlevel, viewport, media, user-agent, syntax-checker, P, node-resolve].
\<close>

theorem plugin_pipeline_order_witness:
  "(case parseConfig sample_env user_store user_config noArgs of
      Inl err \<Rightarrow> False
    | Inr (cfg, gs, h') \<Rightarrow> plugins cfg = Some 1 \<and> cells h' 1 =
       [EsbuildPlugin (Str ''es2020''), SetViewportPlugin, EmulateMediaPlugin, SetUserAgentPlugin,
        Plugin ''syntax-checker'', Plugin ''P'',
        NodeResolvePlugin (Str ''/work'') Undefined Undefined])"
  using plugin_pipeline_order
    [where e = sample_env and h = user_store and c = user_config and a = noArgs]
  by (simp add: model_defs sample_env_def noArgs_def user_store_def user_config_def Let_def)

section \<open>Launcher negotiation\<close>

text \<open>
  Claim C2. Once the resolution has reached the launcher negotiation (the stages before
  it have succeeded with \<open>fc\<close> and \<open>gs\<close>), the \<open>browsers\<close> at hand are those of the merged
  configuration and exactly one of three paths is taken. With the puppeteer flag: if
  \<open>browsers\<close> holds at least one entry the resolution fails with the error of a
  conflicting launcher, otherwise it returns and \<open>browsers\<close> is what \<open>puppeteerLauncher\<close>
  makes of the CLI's browser names. Without the puppeteer flag and with the playwright
  flag: the same with \<open>playwrightLauncher\<close>. With neither flag: a CLI \<open>browsers\<close> list
  makes the resolution fail with the error of an invalid launcher selection, and when
  there is none and no \<open>browsers\<close> is configured at all, the resolution returns with the
  one built-in launcher. The conflict and the invalid selection are both
  \<open>TestRunnerStartError\<close>s, told apart by their messages.
\<close>

theorem launcher_negotiation:
  assumes "resolveUpToFocus e c a = Inr (fc, gs)"
  shows "browsers fc = browsers (mergedConfigs e c a) \<and>
    (truthy (cli_settings a ''puppeteer'') \<and> hasBrowsers (browsers fc) \<longrightarrow>
       parseConfig e h c a = Inl (TestRunnerStartError
         ''The --puppeteer flag cannot be used when defining browsers manually in your finalConfig.'')) \<and>
    (truthy (cli_settings a ''puppeteer'') \<and> \<not> hasBrowsers (browsers fc) \<longrightarrow>
       (\<exists>cfg h'. parseConfig e h c a = Inr (cfg, gs, h') \<and>
          browsers cfg = Some (puppeteerLauncher e (cli_browsers a)))) \<and>
    (\<not> truthy (cli_settings a ''puppeteer'') \<and> truthy (cli_settings a ''playwright'') \<and>
       hasBrowsers (browsers fc) \<longrightarrow>
       parseConfig e h c a = Inl (TestRunnerStartError
         ''The --playwright flag cannot be used when defining browsers manually in your finalConfig.'')) \<and>
    (\<not> truthy (cli_settings a ''puppeteer'') \<and> truthy (cli_settings a ''playwright'') \<and>
       \<not> hasBrowsers (browsers fc) \<longrightarrow>
       (\<exists>cfg h'. parseConfig e h c a = Inr (cfg, gs, h') \<and>
          browsers cfg = Some (playwrightLauncher e (cli_browsers a)))) \<and>
    (\<not> truthy (cli_settings a ''puppeteer'') \<and> \<not> truthy (cli_settings a ''playwright'') \<and>
       cli_browsers a \<noteq> None \<longrightarrow>
       parseConfig e h c a = Inl (TestRunnerStartError
         ''The browsers option must be used along with the puppeteer or playwright option.'')) \<and>
    (\<not> truthy (cli_settings a ''puppeteer'') \<and> \<not> truthy (cli_settings a ''playwright'') \<and>
       cli_browsers a = None \<and> browsers fc = None \<longrightarrow>
       (\<exists>cfg h'. parseConfig e h c a = Inr (cfg, gs, h') \<and> browsers cfg = Some [ChromeLauncher]))"
  using resolveUpToFocus_browsers [OF assms]
  by (simp add: parseConfig_after_focus [OF assms] negotiateLaunchers_def)

text \<open>
  \<open>--puppeteer --browsers firefox\<close> with \<open>browsers: [x]\<close> in the configuration is a
  conflict; with no \<open>browsers\<close> in the configuration it yields the puppeteer launcher of
  firefox.
\<close>

theorem launcher_negotiation_witness:
  "parseConfig sample_env module_store browsers_config puppeteer_args =
     Inl (TestRunnerStartError
       ''The --puppeteer flag cannot be used when defining browsers manually in your finalConfig.'') \<and>
   (case parseConfig sample_env module_store emptyConfig puppeteer_args of
      Inl err \<Rightarrow> False
    | Inr (cfg, gs, h') \<Rightarrow> browsers cfg = Some [Launcher ''puppeteer:firefox''])"
proof -
  have "truthy (cli_settings puppeteer_args ''puppeteer'') \<and>
        hasBrowsers (browsers (assignPort sample_env
          (mergedConfigs sample_env browsers_config puppeteer_args)))"
    by (simp add: puppeteer_args_def noArgs_def fields_mergedConfigs browsers_config_def)
  with launcher_negotiation [OF resolveUpToFocus_browsers_config, of module_store]
  have 1: "parseConfig sample_env module_store browsers_config puppeteer_args =
     Inl (TestRunnerStartError
       ''The --puppeteer flag cannot be used when defining browsers manually in your finalConfig.'')"
    by blast
  have "truthy (cli_settings puppeteer_args ''puppeteer'') \<and>
        \<not> hasBrowsers (browsers (assignPort sample_env
          (mergedConfigs sample_env emptyConfig puppeteer_args)))"
    by (simp add: puppeteer_args_def noArgs_def fields_mergedConfigs)
  with launcher_negotiation [OF resolveUpToFocus_emptyConfig, of module_store]
  have "\<exists>cfg h'. parseConfig sample_env module_store emptyConfig puppeteer_args = Inr (cfg, [], h') \<and>
          browsers cfg = Some (puppeteerLauncher sample_env (cli_browsers puppeteer_args))"
    by blast
  then have 2: "(case parseConfig sample_env module_store emptyConfig puppeteer_args of
      Inl err \<Rightarrow> False
    | Inr (cfg, gs, h') \<Rightarrow> browsers cfg = Some [Launcher ''puppeteer:firefox''])"
    by (auto simp: sample_env_def puppeteer_args_def noArgs_def)
  from 1 2 show ?thesis by simp
qed

section \<open>Group focus\<close>

text \<open>
  Claim C3. Let the resolution have reached the focus on a group: the configuration is
  prepared, no resolved group bears the reserved name, and the CLI names a group \<open>g\<close>.
  If \<open>g\<close> is \<open>default\<close>, every returned group list is empty, whatever groups were given.
  Otherwise, if no resolved group is named \<open>g\<close> the resolution fails with the error that
  no such group was found (a \<open>TestRunnerStartError\<close>); and if \<open>gc\<close> is the first resolved
  group named \<open>g\<close>, every returned group list is that one group, with the root's \<open>files\<close>
  for its own when it had none, and \<open>files\<close> is \<open>undefined\<close> in the returned configuration.
\<close>

theorem group_focus:
  assumes "prepareConfig e c a = Inr fc"
    and "find (\<lambda>x. name x = ''default'') (resolveGroups e fc) = None"
    and "group a = Some g"
  shows "(g = ''default'' \<longrightarrow>
        resolveUpToFocus e c a = Inr (fc, []) \<and>
        (\<forall>cfg gs h'. parseConfig e h c a = Inr (cfg, gs, h') \<longrightarrow> gs = [])) \<and>
     (g \<noteq> ''default'' \<and> find (\<lambda>x. name x = g) (resolveGroups e fc) = None \<longrightarrow>
        parseConfig e h c a = Inl (TestRunnerStartError (''Could not find any group named '' @ g))) \<and>
     (\<forall>gc. g \<noteq> ''default'' \<and> find (\<lambda>x. name x = g) (resolveGroups e fc) = Some gc \<longrightarrow>
        (\<forall>cfg gs h'. parseConfig e h c a = Inr (cfg, gs, h') \<longrightarrow>
           gs = [if nullish (files gc)
                 then gc\<lparr>files := settings (mergedConfigs e c a) ''files''\<rparr> else gc] \<and>
           settings cfg ''files'' = Undefined))"
proof -
  have stage: "resolveUpToFocus e c a = focusGroup a fc (resolveGroups e fc)"
    using assms(2) by (simp add: resolveUpToFocus_prepared [OF assms(1)] checkReservedName_def)
  have files: "settings fc ''files'' = settings (mergedConfigs e c a) ''files''"
    by (rule prepareConfig_settings [OF assms(1)]) simp_all
  show ?thesis
  proof (intro conjI impI allI)
    assume "g = ''default''"
    with assms(3) show r: "resolveUpToFocus e c a = Inr (fc, [])"
      by (simp add: stage focusGroup_def)
    fix cfg gs h'
    assume "parseConfig e h c a = Inr (cfg, gs, h')"
    with r show "gs = []" by (auto dest!: parseConfig_returns)
  next
    assume "g \<noteq> ''default'' \<and> find (\<lambda>x. name x = g) (resolveGroups e fc) = None"
    with assms(3) have "resolveUpToFocus e c a =
        Inl (TestRunnerStartError (''Could not find any group named '' @ g))"
      by (simp add: stage focusGroup_def)
    then show "parseConfig e h c a =
        Inl (TestRunnerStartError (''Could not find any group named '' @ g))"
      by (rule parseConfig_focus_Inl)
  next
    fix gc cfg gs h'
    assume h: "g \<noteq> ''default'' \<and> find (\<lambda>x. name x = g) (resolveGroups e fc) = Some gc"
      and ok: "parseConfig e h c a = Inr (cfg, gs, h')"
    from h assms(3) have "resolveUpToFocus e c a =
        Inr (fc\<lparr>settings := (settings fc)(''files'' := Undefined)\<rparr>,
             [if nullish (files gc) then gc\<lparr>files := settings fc ''files''\<rparr> else gc])"
      by (simp add: stage focusGroup_def)
    with parseConfig_returns [OF ok] files
    show "gs = [if nullish (files gc)
                 then gc\<lparr>files := settings (mergedConfigs e c a) ''files''\<rparr> else gc]"
      and "settings cfg ''files'' = Undefined"
      by auto
  qed
qed

text \<open>
  Of the groups a, b, a and the one that a pattern points to, the focus \<open>a\<close> returns the
  first a with the root's \<open>files\<close>; the focus \<open>default\<close> returns no group; the focus \<open>c\<close>
  fails.
\<close>

theorem group_focus_witness:
  "(case parseConfig sample_env module_store groups_config (focus_args ''a'') of
      Inl err \<Rightarrow> False
    | Inr (cfg, gs, h') \<Rightarrow>
        gs = [\<lparr>name = ''a'', files = Str ''test/**/*.test.js''\<rparr>] \<and>
        settings cfg ''files'' = Undefined) \<and>
   (case parseConfig sample_env module_store groups_config (focus_args ''default'') of
      Inl err \<Rightarrow> False
    | Inr (cfg, gs, h') \<Rightarrow> gs = []) \<and>
   parseConfig sample_env module_store groups_config (focus_args ''c'') =
     Inl (TestRunnerStartError ''Could not find any group named c'')"
proof -
  have nores: "find (\<lambda>x. name x = ''default'')
      (resolveGroups sample_env (assignPort sample_env
         (mergedConfigs sample_env groups_config (focus_args g)))) = None" for g
    by (simp add: resolveGroups_groups_config)
  have grp: "group (focus_args g) = Some g" for g
    by (simp add: focus_args_def)
  note th = group_focus [OF prepareConfig_groups_config nores grp, of _ module_store]
  have "\<exists>r. parseConfig sample_env module_store groups_config (focus_args ''a'') = Inr r"
    by (simp add: model_defs sample_env_def noArgs_def focus_args_def groups_config_def Let_def)
  then obtain cfg gs h' where
    eq: "parseConfig sample_env module_store groups_config (focus_args ''a'') = Inr (cfg, gs, h')"
    by auto
  have "\<exists>r. parseConfig sample_env module_store groups_config (focus_args ''default'') = Inr r"
    by (simp add: model_defs sample_env_def noArgs_def focus_args_def groups_config_def Let_def)
  then obtain cfg' gs' h'' where
    eq': "parseConfig sample_env module_store groups_config (focus_args ''default'') = Inr (cfg', gs', h'')"
    by auto
  have found: "''a'' \<noteq> ''default'' \<and> find (\<lambda>x. name x = ''a'')
      (resolveGroups sample_env (assignPort sample_env
         (mergedConfigs sample_env groups_config (focus_args ''a'')))) =
       Some \<lparr>name = ''a'', files = Undefined\<rparr>"
    by (simp add: resolveGroups_groups_config)
  have missing: "''c'' \<noteq> ''default'' \<and> find (\<lambda>x. name x = ''c'')
      (resolveGroups sample_env (assignPort sample_env
         (mergedConfigs sample_env groups_config (focus_args ''c'')))) = None"
    by (simp add: resolveGroups_groups_config)
  from th [of "''a''"] found eq
  have "gs = [if nullish (files \<lparr>name = ''a'', files = Undefined\<rparr>)
              then \<lparr>name = ''a'', files = Undefined\<rparr>\<lparr>files :=
                settings (mergedConfigs sample_env groups_config (focus_args ''a'')) ''files''\<rparr>
              else \<lparr>name = ''a'', files = Undefined\<rparr>] \<and>
        settings cfg ''files'' = Undefined"
    by blast
  then have 1: "gs = [\<lparr>name = ''a'', files = Str ''test/**/*.test.js''\<rparr>] \<and>
        settings cfg ''files'' = Undefined"
    by (simp add: settings_mergedConfigs settings_cliArgsConfig focus_args_def noArgs_def
        noSettings_def groups_config_def)
  from th [of "''default''"] eq' have 2: "gs' = []" by blast
  from th [of "''c''"] missing
  have 3: "parseConfig sample_env module_store groups_config (focus_args ''c'') =
     Inl (TestRunnerStartError (''Could not find any group named '' @ ''c''))"
    by blast
  from 1 2 3 show ?thesis by (simp add: eq eq')
qed

section \<open>The reserved group name\<close>

text \<open>
  Claim C4. For a prepared configuration, the resolved groups are the inline group
  objects of \<open>groups\<close>, in their order, followed by the groups that the collector finds
  for the glob patterns (a single non-empty string being one pattern; no groups for an
  absent field or the empty string). If any of them, inline or collected, is named
  \<open>default\<close>, the resolution fails with the error of the reserved name (a plain \<open>Error\<close>);
  otherwise, with no focus asked for, that list is the list every resolution returns.
\<close>

theorem reserved_group_name:
  assumes \<open>prepareConfig e c a = Inr fc\<close>
  shows \<open>resolveGroups e fc =
       (case groups c of
          None \<Rightarrow> []
        | Some (GroupsString s) \<Rightarrow> (if s = [] then [] else collectGroupConfigs e [s])
        | Some (GroupsList es) \<Rightarrow> inlineGroups es @ collectGroupConfigs e (configPatterns es)) \<and>
     (''default'' \<in> name ` set (resolveGroups e fc) \<longrightarrow>
        parseConfig e h c a = Inl (Error
          ''Cannot create a group named "default". This named is reserved by the test runner.'')) \<and>
     (''default'' \<notin> name ` set (resolveGroups e fc) \<and> group a = None \<longrightarrow>
        resolveUpToFocus e c a = Inr (fc, resolveGroups e fc) \<and>
        (\<forall>cfg gs h'. parseConfig e h c a = Inr (cfg, gs, h') \<longrightarrow> gs = resolveGroups e fc))\<close>
proof (intro conjI impI)
  show \<open>resolveGroups e fc =
       (case groups c of
          None \<Rightarrow> []
        | Some (GroupsString s) \<Rightarrow> (if s = [] then [] else collectGroupConfigs e [s])
        | Some (GroupsList es) \<Rightarrow> inlineGroups es @ collectGroupConfigs e (configPatterns es))\<close>
    by (rule resolveGroups_prepared [OF assms])
next
  assume \<open>''default'' \<in> name ` set (resolveGroups e fc)\<close>
  then have \<open>find (\<lambda>g. name g = ''default'') (resolveGroups e fc) \<noteq> None\<close>
    by (auto simp: find_None_set)
  then have \<open>resolveUpToFocus e c a = Inl (Error
          ''Cannot create a group named "default". This named is reserved by the test runner.'')\<close>
    by (auto simp: resolveUpToFocus_prepared [OF assms] checkReservedName_def)
  then show \<open>parseConfig e h c a = Inl (Error
          ''Cannot create a group named "default". This named is reserved by the test runner.'')\<close>
    by (rule parseConfig_focus_Inl)
next
  assume h: \<open>''default'' \<notin> name ` set (resolveGroups e fc) \<and> group a = None\<close>
  then have \<open>find (\<lambda>g. name g = ''default'') (resolveGroups e fc) = None\<close>
    by (auto simp: find_None_set image_iff)
  with h show r: \<open>resolveUpToFocus e c a = Inr (fc, resolveGroups e fc)\<close>
    by (simp add: resolveUpToFocus_prepared [OF assms] checkReservedName_def focusGroup_def)
  show \<open>\<forall>cfg gs h'. parseConfig e h c a = Inr (cfg, gs, h') \<longrightarrow> gs = resolveGroups e fc\<close>
    using r by (auto dest!: parseConfig_returns)
qed

text \<open>
  The inline groups a, b, a come before the group of the pattern, though the pattern is
  the second entry; an inline group named \<open>default\<close> makes the resolution fail.
\<close>

theorem reserved_group_name_witness:
  \<open>(case parseConfig sample_env module_store groups_config noArgs of
      Inl err \<Rightarrow> False
    | Inr (cfg, gs, h') \<Rightarrow>
        gs = [\<lparr>name = ''a'', files = Undefined\<rparr>, \<lparr>name = ''b'', files = Str ''b/*.js''\<rparr>,
              \<lparr>name = ''a'', files = Str ''second/*.js''\<rparr>,
              \<lparr>name = ''groups/*.js'', files = Undefined\<rparr>]) \<and>
   parseConfig sample_env module_store reserved_config noArgs =
     Inl (Error ''Cannot create a group named "default". This named is reserved by the test runner.'')\<close>
proof -
  have \<open>\<exists>r. parseConfig sample_env module_store groups_config noArgs = Inr r\<close>
    by (simp add: model_defs sample_env_def noArgs_def groups_config_def Let_def)
  then obtain cfg gs h' where
    eq: \<open>parseConfig sample_env module_store groups_config noArgs = Inr (cfg, gs, h')\<close>
    by auto
  have a: \<open>''default'' \<notin> name ` set (resolveGroups sample_env
       (assignPort sample_env (mergedConfigs sample_env groups_config noArgs))) \<and>
       group noArgs = None\<close>
    by (simp add: resolveGroups_groups_config noArgs_def)
  from reserved_group_name [OF prepareConfig_groups_noArgs, of module_store] a eq
  have \<open>gs = resolveGroups sample_env
       (assignPort sample_env (mergedConfigs sample_env groups_config noArgs))\<close>
    by blast
  then have 1: \<open>gs = [\<lparr>name = ''a'', files = Undefined\<rparr>, \<lparr>name = ''b'', files = Str ''b/*.js''\<rparr>,
              \<lparr>name = ''a'', files = Str ''second/*.js''\<rparr>,
              \<lparr>name = ''groups/*.js'', files = Undefined\<rparr>]\<close>
    by (simp add: resolveGroups_groups_config)
  have b: \<open>''default'' \<in> name ` set (resolveGroups sample_env
       (assignPort sample_env (mergedConfigs sample_env reserved_config noArgs)))\<close>
    by (simp add: resolveGroups_def fields_mergedConfigs reserved_config_def sample_env_def)
  from reserved_group_name [OF prepareConfig_reserved, of module_store] b
  have 2: \<open>parseConfig sample_env module_store reserved_config noArgs =
     Inl (Error ''Cannot create a group named "default". This named is reserved by the test runner.'')\<close>
    by blast
  from 1 2 show ?thesis by (simp add: eq)
qed

section \<open>Validation of the typed keys\<close>

text \<open>
  Claim C5, as stated, asks that whenever a recognized key is present with a value of
  the wrong type, the validation fails with an error that names that key. The checks run
  in a fixed order and the first one that fails throws, so with two mistyped keys the
  error names only the first: here \<open>rootDir\<close> is a number and \<open>port\<close> is a string, and
  the error is that of \<open>rootDir\<close>, not that of \<open>port\<close>.
\<close>

theorem validateConfig_names_first_key_only:
  "mistyped two_mistyped ''port'' (Typeof ''number'')
   \<and> validateConfig two_mistyped =
       Inl (TestRunnerStartError ''Configuration error: The rootDir setting should be a string.'')
   \<and> validateConfig two_mistyped \<noteq> Inl (validationError ''port'' (Typeof ''number''))"
  by (simp add: two_mistyped_def mistyped_def validateConfig_def validate_def stringSettings_def
      emptyConfig_def noSettings_def)

text \<open>
  Claim C5, amended. The validation fails exactly when some recognized key (a string, a
  number or a boolean key, \<open>esbuildTarget\<close>, \<open>files\<close>) is present with a value of the wrong
  type, and its error is then the one of the first such key in the order of the checks,
  naming that key and the type expected of it: so a mistyped key is named whenever no
  key checked before it is mistyped as well. A key that is absent, \<open>null\<close> or of the right
  type never makes the validation fail: when no recognized key is mistyped, the
  validation returns the configuration as it is. A key that is not recognized is ignored,
  whatever its value.
\<close>

theorem validateConfig_first_mistyped_key:
  "validateConfig c =
     (case find (\<lambda>(k, x). mistyped c k x) recognizedSettings of
        None \<Rightarrow> Inr c
      | Some (k, x) \<Rightarrow> Inl (validationError k x))
   \<and> (\<forall>k x. (k, x) \<in> set recognizedSettings \<and> mistyped c k x \<longrightarrow> (\<exists>err. validateConfig c = Inl err))
   \<and> (\<forall>k x. (k, x) \<in> set recognizedSettings \<and> mistyped c k x \<and>
         (\<forall>(k', x') \<in> set (takeWhile (\<lambda>p. p \<noteq> (k, x)) recognizedSettings). \<not> mistyped c k' x')
         \<longrightarrow> validateConfig c = Inl (validationError k x))
   \<and> ((\<forall>(k, x) \<in> set recognizedSettings. \<not> mistyped c k x) \<longrightarrow> validateConfig c = Inr c)
   \<and> (\<forall>k v. k \<notin> fst ` set recognizedSettings \<longrightarrow>
         validateConfig (c\<lparr>settings := (settings c)(k := v)\<rparr>) =
           map_sum id (\<lambda>c'. c'\<lparr>settings := (settings c')(k := v)\<rparr>) (validateConfig c))"
proof (intro conjI allI impI)
  show "validateConfig c =
     (case find (\<lambda>(k, x). mistyped c k x) recognizedSettings of
        None \<Rightarrow> Inr c
      | Some (k, x) \<Rightarrow> Inl (validationError k x))"
    by (rule validateConfig_find)
next
  fix k x
  assume "(k, x) \<in> set recognizedSettings \<and> mistyped c k x"
  then have "find (\<lambda>(k, x). mistyped c k x) recognizedSettings \<noteq> None"
    by (auto simp: find_None_set)
  then show "\<exists>err. validateConfig c = Inl err"
    by (auto simp: validateConfig_find split: option.splits)
next
  fix k x
  assume h: "(k, x) \<in> set recognizedSettings \<and> mistyped c k x \<and>
         (\<forall>(k', x') \<in> set (takeWhile (\<lambda>p. p \<noteq> (k, x)) recognizedSettings). \<not> mistyped c k' x')"
  have "find (\<lambda>(k, x). mistyped c k x) recognizedSettings = Some (k, x)"
    by (rule find_first) (use h in auto)
  then show "validateConfig c = Inl (validationError k x)"
    by (simp add: validateConfig_find)
next
  assume "\<forall>(k, x) \<in> set recognizedSettings. \<not> mistyped c k x"
  then have "find (\<lambda>(k, x). mistyped c k x) recognizedSettings = None"
    by (auto simp: find_None_set)
  then show "validateConfig c = Inr c"
    by (simp add: validateConfig_find)
next
  fix k v
  assume "k \<notin> fst ` set recognizedSettings"
  then show "validateConfig (c\<lparr>settings := (settings c)(k := v)\<rparr>) =
           map_sum id (\<lambda>c'. c'\<lparr>settings := (settings c')(k := v)\<rparr>) (validateConfig c)"
    by (simp add: validateConfig_find find_mistyped_update split: option.splits)
qed

text \<open>
  A string for \<open>port\<close> (beside a valid \<open>rootDir\<close> and a key the code does not know) fails
  with the error of \<open>port\<close>; with \<open>null\<close> for \<open>port\<close> the validation passes.
\<close>

theorem validateConfig_first_mistyped_key_witness:
  "validateConfig port_mistyped =
     Inl (TestRunnerStartError ''Configuration error: The port setting should be a number.'')
   \<and> validateConfig (port_mistyped\<lparr>settings := (settings port_mistyped)(''port'' := Null)\<rparr>) =
       Inr (port_mistyped\<lparr>settings := (settings port_mistyped)(''port'' := Null)\<rparr>)"
proof -
  have a: "(''port'', Typeof ''number'') \<in> set recognizedSettings \<and>
        mistyped port_mistyped ''port'' (Typeof ''number'') \<and>
        (\<forall>(k', x') \<in> set (takeWhile (\<lambda>p. p \<noteq> (''port'', Typeof ''number'')) recognizedSettings).
            \<not> mistyped port_mistyped k' x')"
    by (simp add: recognizedSettings_def stringSettings_def numberSettings_def booleanSettings_def
        mistyped_def port_mistyped_def emptyConfig_def noSettings_def)
  have b: "\<forall>(k, x) \<in> set recognizedSettings.
        \<not> mistyped (port_mistyped\<lparr>settings := (settings port_mistyped)(''port'' := Null)\<rparr>) k x"
    by (simp add: recognizedSettings_def stringSettings_def numberSettings_def booleanSettings_def
        mistyped_def port_mistyped_def emptyConfig_def noSettings_def)
  from validateConfig_first_mistyped_key [of port_mistyped] a
  have "validateConfig port_mistyped = Inl (validationError ''port'' (Typeof ''number''))"
    by blast
  moreover
  from validateConfig_first_mistyped_key
    [of "port_mistyped\<lparr>settings := (settings port_mistyped)(''port'' := Null)\<rparr>"] b
  have "validateConfig (port_mistyped\<lparr>settings := (settings port_mistyped)(''port'' := Null)\<rparr>) =
       Inr (port_mistyped\<lparr>settings := (settings port_mistyped)(''port'' := Null)\<rparr>)"
    by blast
  ultimately show ?thesis by simp
qed

section \<open>Root directory and port\<close>

text \<open>
  Claim C6, as stated, asks that the port of every returned configuration be an integer.
  A configured port is kept whenever it is a number, and one half is a number.
\<close>

theorem port_not_integer:
  "(case parseConfig sample_env module_store half_port noArgs of
      Inl err \<Rightarrow> False
    | Inr (cfg, gs, h') \<Rightarrow> settings cfg ''port'' = Num (1 / 2)) \<and> (1 / 2 :: real) \<notin> \<int>"
  using half_not_int
  by (simp add: model_defs sample_env_def noArgs_def half_port_def Let_def)

text \<open>
  Claim C6, amended. If the merged configuration passes the validation and its
  \<open>rootDir\<close> is not a string, the resolution fails with the error that no root directory
  is specified. Every configuration that a resolution returns has for \<open>rootDir\<close> what
  \<open>path.resolve\<close> makes of the merged \<open>rootDir\<close>, a string, which is an absolute path
  since \<open>path.resolve\<close> returns absolute paths; and it has a number for \<open>port\<close>: the merged
  \<open>port\<close> as it is when that is a number (an integer or not), and otherwise the port that
  the port finder returns when asked to prefer 8000.
\<close>

theorem rootDir_and_port_resolved:
  "(validateConfig (mergedConfigs e c a) = Inr (mergedConfigs e c a) \<and>
    typeof (settings (mergedConfigs e c a) ''rootDir'') \<noteq> ''string'' \<longrightarrow>
      parseConfig e h c a = Inl (TestRunnerStartError ''No rootDir specified.'')) \<and>
   (\<forall>cfg gs h'. parseConfig e h c a = Inr (cfg, gs, h') \<longrightarrow>
      (\<exists>s. settings (mergedConfigs e c a) ''rootDir'' = Str s \<and>
           settings cfg ''rootDir'' = Str (path_resolve e s)) \<and>
      ((\<forall>p. isAbsolute (path_resolve e p)) \<longrightarrow>
         (\<exists>r. settings cfg ''rootDir'' = Str r \<and> isAbsolute r)) \<and>
      typeof (settings cfg ''port'') = ''number'' \<and>
      settings cfg ''port'' =
        (if typeof (settings (mergedConfigs e c a) ''port'') = ''number''
         then settings (mergedConfigs e c a) ''port''
         else Num (real (getPortPromise e 8000))))"
proof (intro conjI impI allI)
  assume h: "validateConfig (mergedConfigs e c a) = Inr (mergedConfigs e c a) \<and>
    typeof (settings (mergedConfigs e c a) ''rootDir'') \<noteq> ''string''"
  then have "resolveRootDir e (mergedConfigs e c a) = Inl (TestRunnerStartError ''No rootDir specified.'')"
    by (cases "settings (mergedConfigs e c a) ''rootDir''") (simp_all add: resolveRootDir_def)
  with h have "prepareConfig e c a = Inl (TestRunnerStartError ''No rootDir specified.'')"
    by (simp add: prepareConfig_def)
  then show "parseConfig e h c a = Inl (TestRunnerStartError ''No rootDir specified.'')"
    by (rule parseConfig_prepare_Inl)
next
  fix cfg gs h'
  assume ok: "parseConfig e h c a = Inr (cfg, gs, h')"
  from parseConfig_settings [OF ok, of "''rootDir''"] obtain fc where
    p: "prepareConfig e c a = Inr fc" and r: "settings cfg ''rootDir'' = settings fc ''rootDir''"
    by auto
  from parseConfig_settings [OF ok, of "''port''"] p
  have q: "settings cfg ''port'' = settings fc ''port''" by auto
  from prepareConfig_rootDir [OF p] r
  show 1: "\<exists>s. settings (mergedConfigs e c a) ''rootDir'' = Str s \<and>
           settings cfg ''rootDir'' = Str (path_resolve e s)"
    by auto
  show 2: "settings cfg ''port'' =
        (if typeof (settings (mergedConfigs e c a) ''port'') = ''number''
         then settings (mergedConfigs e c a) ''port''
         else Num (real (getPortPromise e 8000)))"
    using prepareConfig_port [OF p] q by simp
  from 2 show "typeof (settings cfg ''port'') = ''number''"
    by (simp split: if_splits)
  assume "\<forall>p. isAbsolute (path_resolve e p)"
  with 1 show "\<exists>r. settings cfg ''rootDir'' = Str r \<and> isAbsolute r" by auto
qed

text \<open>
  The relative root \<open>src\<close> is resolved to \<open>/work/src\<close> and, no port being configured, the
  port is the one the port finder gives for 8000; \<open>rootDir: null\<close> passes the validation
  and fails for want of a root directory.
\<close>

theorem rootDir_and_port_resolved_witness:
  "(case parseConfig sample_env module_store relative_root noArgs of
      Inl err \<Rightarrow> False
    | Inr (cfg, gs, h') \<Rightarrow>
        settings cfg ''rootDir'' = Str ''/work/src'' \<and> settings cfg ''port'' = Num 8000) \<and>
   parseConfig sample_env module_store null_root noArgs =
     Inl (TestRunnerStartError ''No rootDir specified.'')"
proof -
  have "\<exists>r. parseConfig sample_env module_store relative_root noArgs = Inr r"
    by (simp add: model_defs sample_env_def noArgs_def relative_root_def Let_def)
  then obtain cfg gs h' where
    eq: "parseConfig sample_env module_store relative_root noArgs = Inr (cfg, gs, h')"
    by auto
  from rootDir_and_port_resolved
    [where e = sample_env and c = relative_root and a = noArgs and h = module_store]
    eq sample_env_absolute
  have "(\<exists>s. settings (mergedConfigs sample_env relative_root noArgs) ''rootDir'' = Str s \<and>
           settings cfg ''rootDir'' = Str (path_resolve sample_env s)) \<and>
      (\<exists>r. settings cfg ''rootDir'' = Str r \<and> isAbsolute r) \<and>
      settings cfg ''port'' =
        (if typeof (settings (mergedConfigs sample_env relative_root noArgs) ''port'') = ''number''
         then settings (mergedConfigs sample_env relative_root noArgs) ''port''
         else Num (real (getPortPromise sample_env 8000)))"
    by blast
  then have "settings cfg ''rootDir'' = Str ''/work/src'' \<and> settings cfg ''port'' = Num 8000"
    by (simp add: settings_mergedConfigs settings_cliArgsConfig noArgs_def relative_root_def
        noSettings_def defaultConfig_def emptyConfig_def sample_env_def)
  moreover
  have "validateConfig (mergedConfigs sample_env null_root noArgs)
      = Inr (mergedConfigs sample_env null_root noArgs) \<and>
    typeof (settings (mergedConfigs sample_env null_root noArgs) ''rootDir'') \<noteq> ''string''"
    by (simp add: model_defs sample_env_def noArgs_def null_root_def)
  with rootDir_and_port_resolved
    [where e = sample_env and c = null_root and a = noArgs and h = module_store]
  have "parseConfig sample_env module_store null_root noArgs =
     Inl (TestRunnerStartError ''No rootDir specified.'')"
    by blast
  ultimately show ?thesis by (simp add: eq)
qed

section \<open>Merging\<close>

text \<open>
  Claim C7. The merge is last writer wins for each key over the ordered sources,
  a value being replaced as a whole: the merged value of a key is the last value among
  the sources' that is not \<open>undefined\<close>, and a list such as \<open>plugins\<close> or \<open>browsers\<close> is the
  last source's list. In a resolution the sources are, in this order, the defaults, the
  user configuration and the configuration made of the CLI arguments, so the CLI beats
  the user and the user beats the defaults: every key of a returned configuration but
  \<open>rootDir\<close>, \<open>port\<close> and \<open>files\<close>, which later stages change, has that last defined value.
  For the port of a resolution that returns: a port number among the CLI arguments is
  the port, whatever the user configuration says; with none there, a port number of the
  user configuration is the port, so \<open>port: 9000\<close> with no CLI port gives exactly 9000;
  and with no port in either (the defaults have none) the port is the one that the port
  finder returns.
\<close>

theorem merge_last_writer_wins:
  "settings (mergeConfigs cs) k = lastDefined (map (\<lambda>c. settings c k) cs) \<and>
   plugins (mergeConfigs cs) = lastSome (map plugins cs) \<and>
   browsers (mergeConfigs cs) = lastSome (map browsers cs) \<and>
   settings (mergedConfigs e c a) k =
     lastDefined [settings (defaultConfig e) k, settings c k, settings (cliArgsConfig a) k] \<and>
   (\<forall>cfg gs h' k'. parseConfig e h c a = Inr (cfg, gs, h') \<and>
       k' \<noteq> ''rootDir'' \<and> k' \<noteq> ''port'' \<and> k' \<noteq> ''files'' \<longrightarrow>
       settings cfg k' =
         lastDefined [settings (defaultConfig e) k', settings c k', settings (cliArgsConfig a) k']) \<and>
   (\<forall>cfg gs h' n. parseConfig e h c a = Inr (cfg, gs, h') \<and> cli_settings a ''port'' = Num n \<longrightarrow>
       settings cfg ''port'' = Num n) \<and>
   (\<forall>cfg gs h' n. parseConfig e h c a = Inr (cfg, gs, h') \<and>
       settings c ''port'' = Num n \<and> cli_settings a ''port'' = Undefined \<longrightarrow>
       settings cfg ''port'' = Num n) \<and>
   (\<forall>cfg gs h'. parseConfig e h c a = Inr (cfg, gs, h') \<and>
       settings c ''port'' = Num 9000 \<and> cli_settings a ''port'' = Undefined \<longrightarrow>
       settings cfg ''port'' = Num 9000) \<and>
   (\<forall>cfg gs h'. parseConfig e h c a = Inr (cfg, gs, h') \<and>
       settings c ''port'' = Undefined \<and> cli_settings a ''port'' = Undefined \<longrightarrow>
       settings cfg ''port'' = Num (real (getPortPromise e 8000)))"
proof -
  have port: "settings cfg ''port'' =
        (if typeof (settings (mergedConfigs e c a) ''port'') = ''number''
         then settings (mergedConfigs e c a) ''port''
         else Num (real (getPortPromise e 8000)))"
    if ok: "parseConfig e h c a = Inr (cfg, gs, h')" for cfg gs h'
  proof -
    from parseConfig_settings [OF ok, of "''port''"] obtain fc where
      "prepareConfig e c a = Inr fc" "settings cfg ''port'' = settings fc ''port''"
      by auto
    then show ?thesis by (simp add: prepareConfig_port)
  qed
  have key: "settings cfg k' =
         lastDefined [settings (defaultConfig e) k', settings c k', settings (cliArgsConfig a) k']"
    if ok: "parseConfig e h c a = Inr (cfg, gs, h')"
      and k: "k' \<noteq> ''rootDir''" "k' \<noteq> ''port''" "k' \<noteq> ''files''" for cfg gs h' k'
  proof -
    from parseConfig_settings [OF ok k(3)] obtain fc where
      "prepareConfig e c a = Inr fc" "settings cfg k' = settings fc k'"
      by auto
    then show ?thesis
      by (simp add: prepareConfig_settings [OF _ k(1,2)] settings_mergedConfigs_lastDefined)
  qed
  have merged_cli: "settings (mergedConfigs e c a) ''port'' = Num n"
    if "cli_settings a ''port'' = Num n" for n
    using that by (simp add: settings_mergedConfigs cliArgsConfig_port)
  show ?thesis
  proof (intro conjI allI impI)
    show "settings (mergeConfigs cs) k = lastDefined (map (\<lambda>c. settings c k) cs)"
      by (rule settings_mergeConfigs)
    show "plugins (mergeConfigs cs) = lastSome (map plugins cs)"
      by (rule plugins_mergeConfigs)
    show "browsers (mergeConfigs cs) = lastSome (map browsers cs)"
      by (rule browsers_mergeConfigs)
    show "settings (mergedConfigs e c a) k =
       lastDefined [settings (defaultConfig e) k, settings c k, settings (cliArgsConfig a) k]"
      by (rule settings_mergedConfigs_lastDefined)
  next
    fix cfg gs h' k'
    assume "parseConfig e h c a = Inr (cfg, gs, h') \<and>
       k' \<noteq> ''rootDir'' \<and> k' \<noteq> ''port'' \<and> k' \<noteq> ''files''"
    then show "settings cfg k' =
         lastDefined [settings (defaultConfig e) k', settings c k', settings (cliArgsConfig a) k']"
      using key by blast
  next
    fix cfg gs h' n
    assume "parseConfig e h c a = Inr (cfg, gs, h') \<and> cli_settings a ''port'' = Num n"
    then show "settings cfg ''port'' = Num n"
      using port [of cfg gs h'] merged_cli [of n] by simp
  next
    fix cfg gs h' n
    assume "parseConfig e h c a = Inr (cfg, gs, h') \<and>
       settings c ''port'' = Num n \<and> cli_settings a ''port'' = Undefined"
    then show "settings cfg ''port'' = Num n"
      using port [of cfg gs h'] by (simp add: mergedConfigs_port)
  next
    fix cfg gs h'
    assume "parseConfig e h c a = Inr (cfg, gs, h') \<and>
       settings c ''port'' = Num 9000 \<and> cli_settings a ''port'' = Undefined"
    then show "settings cfg ''port'' = Num 9000"
      using port [of cfg gs h'] by (simp add: mergedConfigs_port)
  next
    fix cfg gs h'
    assume "parseConfig e h c a = Inr (cfg, gs, h') \<and>
       settings c ''port'' = Undefined \<and> cli_settings a ''port'' = Undefined"
    then show "settings cfg ''port'' = Num (real (getPortPromise e 8000))"
      using port [of cfg gs h'] by (simp add: mergedConfigs_port)
  qed
qed

text \<open>
  A CLI port 7000 beats the user's 9000; without it the user's 9000 stands; with no port
  anywhere the port finder decides; the user's \<open>hostname\<close> beats the default one, and the
  default \<open>protocol\<close> stands where the user gives none.
\<close>

theorem merge_last_writer_wins_witness:
  "settings (mergeConfigs [defaultConfig sample_env, port_9000, cliArgsConfig port_7000_args]) ''port''
     = Num 7000 \<and>
   (case parseConfig sample_env module_store port_9000 port_7000_args of
      Inl err \<Rightarrow> False
    | Inr (cfg, gs, h') \<Rightarrow> settings cfg ''port'' = Num 7000) \<and>
   (case parseConfig sample_env module_store port_9000 noArgs of
      Inl err \<Rightarrow> False
    | Inr (cfg, gs, h') \<Rightarrow> settings cfg ''port'' = Num 9000) \<and>
   (case parseConfig sample_env module_store emptyConfig noArgs of
      Inl err \<Rightarrow> False
    | Inr (cfg, gs, h') \<Rightarrow> settings cfg ''port'' = Num (real (getPortPromise sample_env 8000))) \<and>
   (case parseConfig sample_env module_store host_config noArgs of
      Inl err \<Rightarrow> False
    | Inr (cfg, gs, h') \<Rightarrow>
        settings cfg ''hostname'' = Str ''example.org'' \<and> settings cfg ''protocol'' = Str ''http:'')"
proof -
  have "\<exists>r. parseConfig sample_env module_store port_9000 port_7000_args = Inr r"
    by (simp add: model_defs sample_env_def noArgs_def port_9000_def port_7000_args_def Let_def)
  then obtain cfg0 gs0 h0 where
    eq0: "parseConfig sample_env module_store port_9000 port_7000_args = Inr (cfg0, gs0, h0)"
    by auto
  have "\<exists>r. parseConfig sample_env module_store port_9000 noArgs = Inr r"
    by (simp add: model_defs sample_env_def noArgs_def port_9000_def Let_def)
  then obtain cfg gs h' where
    eq: "parseConfig sample_env module_store port_9000 noArgs = Inr (cfg, gs, h')"
    by auto
  have "\<exists>r. parseConfig sample_env module_store emptyConfig noArgs = Inr r"
    by (simp add: model_defs sample_env_def noArgs_def Let_def)
  then obtain cfg' gs' h'' where
    eq': "parseConfig sample_env module_store emptyConfig noArgs = Inr (cfg', gs', h'')"
    by auto
  have "\<exists>r. parseConfig sample_env module_store host_config noArgs = Inr r"
    by (simp add: model_defs sample_env_def noArgs_def host_config_def Let_def)
  then obtain cfg2 gs2 h2 where
    eq2: "parseConfig sample_env module_store host_config noArgs = Inr (cfg2, gs2, h2)"
    by auto
  have 1: "settings port_9000 ''port'' = Num 9000" "cli_settings noArgs ''port'' = Undefined"
    "settings emptyConfig ''port'' = Undefined" "cli_settings port_7000_args ''port'' = Num 7000"
    by (simp_all add: port_9000_def port_7000_args_def noArgs_def noSettings_def)
  note th = merge_last_writer_wins
    [where cs = "[defaultConfig sample_env, port_9000, cliArgsConfig port_7000_args]"
       and k = "''port''" and e = sample_env and h = module_store]
  from th [where c = port_9000 and a = port_7000_args]
  have "settings (mergeConfigs [defaultConfig sample_env, port_9000, cliArgsConfig port_7000_args]) ''port''
     = lastDefined (map (\<lambda>c. settings c ''port'')
         [defaultConfig sample_env, port_9000, cliArgsConfig port_7000_args])"
    by blast
  then have a: "settings (mergeConfigs [defaultConfig sample_env, port_9000,
      cliArgsConfig port_7000_args]) ''port'' = Num 7000"
    by (simp add: lastDefined_def defaultConfig_port cliArgsConfig_port 1)
  from th [where c = port_9000 and a = port_7000_args] eq0 1
  have b: "settings cfg0 ''port'' = Num 7000" by blast
  from th [where c = port_9000 and a = noArgs] eq 1
  have c: "settings cfg ''port'' = Num 9000" by blast
  from th [where c = emptyConfig and a = noArgs] eq' 1
  have d: "settings cfg' ''port'' = Num (real (getPortPromise sample_env 8000))" by blast
  from th [where c = host_config and a = noArgs] eq2
  have "settings cfg2 ''hostname'' =
      lastDefined [settings (defaultConfig sample_env) ''hostname'', settings host_config ''hostname'',
        settings (cliArgsConfig noArgs) ''hostname''] \<and>
    settings cfg2 ''protocol'' =
      lastDefined [settings (defaultConfig sample_env) ''protocol'', settings host_config ''protocol'',
        settings (cliArgsConfig noArgs) ''protocol'']"
    by simp
  then have e: "settings cfg2 ''hostname'' = Str ''example.org'' \<and>
      settings cfg2 ''protocol'' = Str ''http:''"
    by (simp add: lastDefined_def defaultConfig_def host_config_def settings_cliArgsConfig
        noArgs_def noSettings_def emptyConfig_def)
  from a b c d e show ?thesis by (simp add: eq0 eq eq' eq2)
qed

section \<open>An empty list of browsers\<close>

text \<open>
  Claim C9. With neither the puppeteer flag nor the playwright flag nor a CLI list of
  browsers, the launcher negotiation does not fail (a resolution that fails has failed
  in a stage before it), and the returned \<open>browsers\<close> is the user's list when the user
  configured one, be it the empty list; the built-in launcher is put in only when the
  field is absent.
\<close>

theorem empty_browsers_kept:
  assumes "\<not> truthy (cli_settings a ''puppeteer'')" and "\<not> truthy (cli_settings a ''playwright'')"
    and "cli_browsers a = None"
  shows "(case parseConfig e h c a of
      Inl err \<Rightarrow> resolveUpToFocus e c a = Inl err
    | Inr (cfg, gs, h') \<Rightarrow>
        browsers cfg = (case browsers c of None \<Rightarrow> Some [ChromeLauncher] | Some bs \<Rightarrow> Some bs))"
proof (cases "resolveUpToFocus e c a")
  case (Inl err)
  then show ?thesis by (simp add: parseConfig_focus_Inl)
next
  case (Inr r)
  obtain fc gs where r: "r = (fc, gs)" by (cases r) auto
  with Inr have f: "resolveUpToFocus e c a = Inr (fc, gs)" by simp
  have "browsers fc = browsers c"
    using resolveUpToFocus_browsers [OF f] by (simp add: fields_mergedConfigs)
  with assms show ?thesis
    by (cases "browsers c") (simp_all add: parseConfig_after_focus [OF f] negotiateLaunchers_def)
qed

text \<open>\<open>browsers: []\<close> is returned as it is; without the field the built-in launcher is.\<close>

theorem empty_browsers_kept_witness:
  "(case parseConfig sample_env module_store empty_browsers noArgs of
      Inl err \<Rightarrow> False
    | Inr (cfg, gs, h') \<Rightarrow> browsers cfg = Some []) \<and>
   (case parseConfig sample_env module_store emptyConfig noArgs of
      Inl err \<Rightarrow> False
    | Inr (cfg, gs, h') \<Rightarrow> browsers cfg = Some [ChromeLauncher])"
proof -
  have flags: "\<not> truthy (cli_settings noArgs ''puppeteer'')"
    "\<not> truthy (cli_settings noArgs ''playwright'')" "cli_browsers noArgs = None"
    by (simp_all add: noArgs_def noSettings_def)
  have "\<exists>r. parseConfig sample_env module_store empty_browsers noArgs = Inr r"
    by (simp add: model_defs sample_env_def noArgs_def empty_browsers_def Let_def)
  then obtain cfg gs h' where
    eq: "parseConfig sample_env module_store empty_browsers noArgs = Inr (cfg, gs, h')"
    by auto
  have "\<exists>r. parseConfig sample_env module_store emptyConfig noArgs = Inr r"
    by (simp add: model_defs sample_env_def noArgs_def Let_def)
  then obtain cfg' gs' h'' where
    eq': "parseConfig sample_env module_store emptyConfig noArgs = Inr (cfg', gs', h'')"
    by auto
  from empty_browsers_kept
    [OF flags, where e = sample_env and h = module_store and c = empty_browsers] eq
  have 1: "browsers cfg = Some []" by (simp add: empty_browsers_def)
  from empty_browsers_kept
    [OF flags, where e = sample_env and h = module_store and c = emptyConfig] eq'
  have 2: "browsers cfg' = Some [ChromeLauncher]" by simp
  from 1 2 show ?thesis by (simp add: eq eq')
qed

section \<open>The default logger\<close>

text \<open>
  Claim C10. When the user configures no logger, the logger of every returned
  configuration is the default one, made with the \<open>debug\<close> of the user configuration, the
  first argument of the resolution, not with the \<open>debug\<close> of the merged configuration: a
  \<open>debug\<close> that comes from the CLI arguments or from the defaults has no part in it.
\<close>

theorem default_logger_debug:
  assumes "parseConfig e h c a = Inr (cfg, gs, h')" and "logger c = None"
  shows "logger cfg = Some (TestRunnerLogger (settings c ''debug''))"
proof -
  from assms(1) obtain fc0 fc1 fc2 where
    p: "prepareConfig e c a = Inr fc0"
    and f: "focusGroup a fc0 (resolveGroups e fc0) = Inr (fc1, gs)"
    and n: "negotiateLaunchers e a fc1 = Inr fc2"
    and asm: "assemblePlugins h (fillDefaults e c fc2) = (cfg, h')"
    by (rule parseConfig_success)
  have "logger fc2 = None"
    using prepareConfig_fields(3) [OF p] focusGroup_frame(5) [OF f] negotiateLaunchers_frame(5) [OF n]
      assms(2) by simp
  then show ?thesis
    using assemblePlugins_frame(6) [OF asm] by (simp add: logger_fillDefaults)
qed

text \<open>
  With \<open>--debug\<close> on the command line and no \<open>debug\<close> in the user configuration, the merged
  \<open>debug\<close> is \<open>true\<close> and the default logger is made with \<open>undefined\<close>.
\<close>

theorem default_logger_debug_witness:
  "settings (mergedConfigs sample_env emptyConfig debug_args) ''debug'' = Bool True \<and>
   (case parseConfig sample_env module_store emptyConfig debug_args of
      Inl err \<Rightarrow> False
    | Inr (cfg, gs, h') \<Rightarrow> logger cfg = Some (TestRunnerLogger Undefined))"
proof -
  have "\<exists>r. parseConfig sample_env module_store emptyConfig debug_args = Inr r"
    by (simp add: model_defs sample_env_def noArgs_def debug_args_def Let_def)
  then obtain cfg gs h' where
    eq: "parseConfig sample_env module_store emptyConfig debug_args = Inr (cfg, gs, h')"
    by auto
  have "logger cfg = Some (TestRunnerLogger (settings emptyConfig ''debug''))"
    by (rule default_logger_debug [OF eq]) simp
  then show ?thesis
    by (simp add: eq) (simp add: model_defs debug_args_def noArgs_def)
qed

end
